theory Spec2Isabelle
  imports Main "HOL-Library.AList"
begin

section \<open>Python values used by \<^verbatim>\<open>git_backup.py\<close>\<close>

text \<open>
  A Python \<^verbatim>\<open>str\<close> is an Isabelle \<^typ>\<open>string\<close> whose characters are the code
  points below 256. Exceptions are values: every function of the component that can
  raise returns \<^verbatim>\<open>exn + result\<close>, with \<^verbatim>\<open>Inl\<close> for the raised exception.
\<close>

abbreviation sq :: char where "sq \<equiv> CHR 0x27"
abbreviation dq :: char where "dq \<equiv> CHR 0x22"
abbreviation backslash :: char where "backslash \<equiv> CHR 0x5C"

datatype exn =
    Exception string
  | CalledProcessError "string list" int string string
  | ValueError string
  | KeyError string
  | IndexError string
  | TypeError string
  | OSError string

text \<open>\<^verbatim>\<open>str.isspace\<close> on the code points below 256.\<close>

definition py_isspace :: "char \<Rightarrow> bool" where
  "py_isspace c \<longleftrightarrow>
     c \<in> set [CHR 0x09, CHR 0x0A, CHR 0x0B, CHR 0x0C, CHR 0x0D, CHR 0x1C, CHR 0x1D,
              CHR 0x1E, CHR 0x1F, CHR 0x20, CHR 0x85, CHR 0xA0]"

text \<open>\<^verbatim>\<open>s.strip()\<close>: leading and trailing whitespace removed.\<close>

definition py_strip :: "string \<Rightarrow> string" where
  "py_strip s = rev (dropWhile py_isspace (rev (dropWhile py_isspace s)))"

text \<open>\<^verbatim>\<open>s.split(sep)\<close> for a one-character separator: one more piece than there are
  separators, empty pieces kept.\<close>

fun py_split :: "char \<Rightarrow> string \<Rightarrow> string list" where
  "py_split sep [] = [[]]"
| "py_split sep (c # cs) =
     (if c = sep then [] # py_split sep cs
      else (case py_split sep cs of
              [] \<Rightarrow> [[c]]
            | w # ws \<Rightarrow> (c # w) # ws))"

text \<open>Truthiness of an optional string: \<^verbatim>\<open>None\<close> and \<^verbatim>\<open>''\<close> are falsy.\<close>

definition falsy :: "string option \<Rightarrow> bool" where
  "falsy v \<longleftrightarrow> v = None \<or> v = Some []"

text \<open>\<^verbatim>\<open>f'{v}'\<close> of an optional string.\<close>

definition py_str :: "string option \<Rightarrow> string" where
  "py_str v = (case v of None \<Rightarrow> ''None'' | Some s \<Rightarrow> s)"

subsection \<open>\<^verbatim>\<open>os.path\<close> (posixpath)\<close>

definition basename :: "string \<Rightarrow> string" where
  "basename p = rev (takeWhile (\<lambda>c. c \<noteq> CHR ''/'') (rev p))"

definition path_join :: "string \<Rightarrow> string \<Rightarrow> string" where
  "path_join a b =
     (if take 1 b = ''/'' then b
      else if a = [] \<or> last a = CHR ''/'' then a @ b
      else a @ ''/'' @ b)"

subsection \<open>\<^verbatim>\<open>shlex.quote\<close> and \<^verbatim>\<open>shlex.split\<close>\<close>

text \<open>\<^verbatim>\<open>_find_unsafe = re.compile(r'[^\w@%+=:,./-]', re.ASCII).search\<close>\<close>

definition shlex_safe_chars :: string where
  "shlex_safe_chars =
     ''abcdefghijklmnopqrstuvwxyzABCDEFGHIJKLMNOPQRSTUVWXYZ0123456789_@%+=:,./-''"

definition shlex_quote :: "string \<Rightarrow> string" where
  "shlex_quote s =
     (if s = [] then [sq, sq]
      else if list_all (\<lambda>c. c \<in> set shlex_safe_chars) s then s
      else [sq] @ concat (map (\<lambda>c. if c = sq then [sq, dq, sq, dq, sq] else [c]) s) @ [sq])"

text \<open>
  \<^verbatim>\<open>shlex.split(s)\<close>: the lexer in POSIX mode with \<^verbatim>\<open>whitespace_split = True\<close>, no
  commenters and no punctuation characters. \<^verbatim>\<open>read_tokens\<close> is the loop of
  \<^verbatim>\<open>read_token\<close> run to the end of the input: the lexer state, the token being built,
  the \<^verbatim>\<open>quoted\<close> flag, the tokens returned so far and the characters left.
\<close>

datatype lex_state = InSpace | InWord | InQuote char | InEscape bool

definition shlex_whitespace :: string where
  "shlex_whitespace = [CHR 0x20, CHR 0x09, CHR 0x0D, CHR 0x0A]"

fun read_tokens :: "lex_state \<Rightarrow> string \<Rightarrow> bool \<Rightarrow> string list \<Rightarrow> string \<Rightarrow> exn + string list" where
  "read_tokens InSpace tok quoted acc [] = Inr acc"
| "read_tokens InWord tok quoted acc [] =
     Inr (if \<not> quoted \<and> tok = [] then acc else acc @ [tok])"
| "read_tokens (InQuote q) tok quoted acc [] = Inl (ValueError ''No closing quotation'')"
| "read_tokens (InEscape d) tok quoted acc [] = Inl (ValueError ''No escaped character'')"
| "read_tokens InSpace tok quoted acc (c # cs) =
     (if c \<in> set shlex_whitespace then
        (if tok \<noteq> [] \<or> quoted then read_tokens InSpace [] False (acc @ [tok]) cs
         else read_tokens InSpace tok quoted acc cs)
      else if c = backslash then read_tokens (InEscape False) tok quoted acc cs
      else if c = sq \<or> c = dq then read_tokens (InQuote c) tok quoted acc cs
      else read_tokens InWord [c] quoted acc cs)"
| "read_tokens InWord tok quoted acc (c # cs) =
     (if c \<in> set shlex_whitespace then
        (if tok \<noteq> [] \<or> quoted then read_tokens InSpace [] False (acc @ [tok]) cs
         else read_tokens InSpace tok quoted acc cs)
      else if c = sq \<or> c = dq then read_tokens (InQuote c) tok quoted acc cs
      else if c = backslash then read_tokens (InEscape False) tok quoted acc cs
      else read_tokens InWord (tok @ [c]) quoted acc cs)"
| "read_tokens (InQuote q) tok quoted acc (c # cs) =
     (if c = q then read_tokens InWord tok True acc cs
      else if c = backslash \<and> q = dq then read_tokens (InEscape True) tok True acc cs
      else read_tokens (InQuote q) (tok @ [c]) True acc cs)"
| "read_tokens (InEscape d) tok quoted acc (c # cs) =
     (let tok' = (if d \<and> c \<noteq> backslash \<and> c \<noteq> dq then tok @ [backslash] else tok) @ [c]
      in if d then read_tokens (InQuote dq) tok' quoted acc cs
         else read_tokens InWord tok' quoted acc cs)"

definition shlex_split :: "string \<Rightarrow> exn + string list" where
  "shlex_split s = read_tokens InSpace [] False [] s"

section \<open>The host: the rest of the Python runtime, the operating system, processes\<close>

text \<open>
  What the component reaches outside its own code and outside the library functions
  modelled here is a parameter of the model.

  Of the Python runtime, three functions are parameters:
  \<^item> \<^verbatim>\<open>check_bracketed_host\<close> and \<^verbatim>\<open>checknetloc_nonascii\<close> are the two checks of
    \<^verbatim>\<open>urllib.parse.urlsplit\<close> that need the \<^verbatim>\<open>ipaddress\<close> and \<^verbatim>\<open>unicodedata\<close> modules:
    the exception they raise, if any;
  \<^item> \<^verbatim>\<open>format_str_field rest conv spec s\<close> is what \<^verbatim>\<open>str.format\<close> does with a
    replacement field that names a string \<^verbatim>\<open>s\<close> and goes on with an attribute or index
    lookup \<^verbatim>\<open>rest\<close>, a conversion or a format specification.

  The state of the machine (file system, repository, network) is a value of the type
  variable \<^verbatim>\<open>'w\<close>.
  \<^item> \<^verbatim>\<open>proc_run w cwd args\<close> is \<^verbatim>\<open>subprocess.run(args, cwd=cwd, capture_output=True,
    text=True)\<close> without \<^verbatim>\<open>check\<close>: the process completes with a return code, its
    standard output and its standard error, or the call itself raises (the binary is
    missing, the directory does not exist); the machine is changed either way.
  \<^item> \<^verbatim>\<open>path_isdir\<close> and \<^verbatim>\<open>path_exists\<close> are \<^verbatim>\<open>os.path.isdir\<close> and \<^verbatim>\<open>os.path.exists\<close>.
\<close>

record runtime =
  check_bracketed_host :: "string \<Rightarrow> exn option"
  checknetloc_nonascii :: "string \<Rightarrow> exn option"
  format_str_field :: "string \<Rightarrow> char option \<Rightarrow> string \<Rightarrow> string \<Rightarrow> exn + string"

datatype proc_outcome = Completed int string string | Raised exn

record 'w host =
  python :: runtime
  proc_run :: "'w \<Rightarrow> string \<Rightarrow> string list \<Rightarrow> proc_outcome \<times> 'w"
  path_isdir :: "'w \<Rightarrow> string \<Rightarrow> bool"
  path_exists :: "'w \<Rightarrow> string \<Rightarrow> bool"

section \<open>\<^verbatim>\<open>urllib.parse\<close> (CPython 3.11.10)\<close>

definition uses_netloc :: "string list" where
  "uses_netloc = ['''', ''ftp'', ''http'', ''gopher'', ''nntp'', ''telnet'',
     ''imap'', ''wais'', ''file'', ''mms'', ''https'', ''shttp'',
     ''snews'', ''prospero'', ''rtsp'', ''rtsps'', ''rtspu'', ''rsync'',
     ''svn'', ''svn+ssh'', ''sftp'', ''nfs'', ''git'', ''git+ssh'',
     ''ws'', ''wss'']"

definition uses_params :: "string list" where
  "uses_params = ['''', ''ftp'', ''hdl'', ''prospero'', ''http'', ''imap'',
     ''https'', ''shttp'', ''rtsp'', ''rtsps'', ''rtspu'', ''sip'',
     ''sips'', ''mms'', ''sftp'', ''tel'']"

definition ascii_lowercase :: string where
  "ascii_lowercase = ''abcdefghijklmnopqrstuvwxyz''"

definition ascii_uppercase :: string where
  "ascii_uppercase = ''ABCDEFGHIJKLMNOPQRSTUVWXYZ''"

definition scheme_chars :: string where
  "scheme_chars = ascii_lowercase @ ascii_uppercase @ ''0123456789+-.''"

text \<open>\<^verbatim>\<open>str.lower\<close> on the characters of a scheme, which are ASCII.\<close>

definition ascii_lower :: "char \<Rightarrow> char" where
  "ascii_lower c = (case map_of (zip ascii_uppercase ascii_lowercase) c of
                      Some l \<Rightarrow> l | None \<Rightarrow> c)"

text \<open>\<^verbatim>\<open>_WHATWG_C0_CONTROL_OR_SPACE\<close> and \<^verbatim>\<open>_UNSAFE_URL_BYTES_TO_REMOVE\<close>.\<close>

definition c0_control_or_space :: "char \<Rightarrow> bool" where
  "c0_control_or_space c \<longleftrightarrow> (of_char c :: nat) \<le> 0x20"

definition unsafe_url_bytes :: string where
  "unsafe_url_bytes = [CHR 0x09, CHR 0x0D, CHR 0x0A]"

text \<open>\<^verbatim>\<open>s.split(c, 1)\<close> where \<^verbatim>\<open>c in s\<close>.\<close>

definition split_once :: "char \<Rightarrow> string \<Rightarrow> string \<times> string" where
  "split_once c s = (takeWhile (\<lambda>x. x \<noteq> c) s, tl (dropWhile (\<lambda>x. x \<noteq> c) s))"

text \<open>\<^verbatim>\<open>_splitnetloc(url, 2)\<close>\<close>

definition splitnetloc :: "string \<Rightarrow> string \<times> string" where
  "splitnetloc url =
     (takeWhile (\<lambda>c. c \<notin> set ''/?#'') (drop 2 url),
      dropWhile (\<lambda>c. c \<notin> set ''/?#'') (drop 2 url))"

text \<open>The end of \<^verbatim>\<open>urlsplit\<close>: fragment, query, \<^verbatim>\<open>_checknetloc\<close>.\<close>

definition urlsplit_tail ::
  "runtime \<Rightarrow> string \<Rightarrow> string \<Rightarrow> string \<Rightarrow> exn + (string \<times> string \<times> string \<times> string \<times> string)" where
  "urlsplit_tail rt scheme netloc url =
     (let (url1, fragment) = (if CHR ''#'' \<in> set url then split_once CHR ''#'' url else (url, []));
          (url2, query) = (if CHR ''?'' \<in> set url1 then split_once CHR ''?'' url1 else (url1, []))
      in case (if netloc = [] \<or> list_all (\<lambda>c. (of_char c :: nat) < 128) netloc then None
               else checknetloc_nonascii rt netloc) of
           Some e \<Rightarrow> Inl e
         | None \<Rightarrow> Inr (scheme, netloc, url2, query, fragment))"

definition urlsplit ::
  "runtime \<Rightarrow> string \<Rightarrow> exn + (string \<times> string \<times> string \<times> string \<times> string)" where
  "urlsplit rt url0 =
     (let url1 = filter (\<lambda>c. c \<notin> set unsafe_url_bytes) (dropWhile c0_control_or_space url0);
          pre = takeWhile (\<lambda>c. c \<noteq> CHR '':'') url1;
          has_scheme = (CHR '':'' \<in> set url1 \<and> pre \<noteq> []
                         \<and> hd pre \<in> set (ascii_lowercase @ ascii_uppercase)
                         \<and> list_all (\<lambda>c. c \<in> set scheme_chars) pre);
          scheme = (if has_scheme then map ascii_lower pre else []);
          url2 = (if has_scheme then drop (Suc (length pre)) url1 else url1)
      in if take 2 url2 = ''//'' then
           (let (netloc, url3) = splitnetloc url2 in
            if (CHR ''['' \<in> set netloc \<and> CHR '']'' \<notin> set netloc)
               \<or> (CHR '']'' \<in> set netloc \<and> CHR ''['' \<notin> set netloc)
            then Inl (ValueError ''Invalid IPv6 URL'')
            else
              (case (if CHR ''['' \<in> set netloc \<and> CHR '']'' \<in> set netloc
                     then check_bracketed_host rt
                            (takeWhile (\<lambda>c. c \<noteq> CHR '']'')
                               (tl (dropWhile (\<lambda>c. c \<noteq> CHR ''['') netloc)))
                     else None) of
                 Some e \<Rightarrow> Inl e
               | None \<Rightarrow> urlsplit_tail rt scheme netloc url3))
         else urlsplit_tail rt scheme [] url2)"

text \<open>\<^verbatim>\<open>_splitparams(url)\<close>, called with \<^verbatim>\<open>';' in url\<close>.\<close>

definition splitparams :: "string \<Rightarrow> string \<times> string" where
  "splitparams url =
     (if CHR ''/'' \<in> set url then
        (let seg = rev (takeWhile (\<lambda>c. c \<noteq> CHR ''/'') (rev url));
             front = take (length url - length seg) url
         in if CHR '';'' \<in> set seg
            then (front @ takeWhile (\<lambda>c. c \<noteq> CHR '';'') seg, tl (dropWhile (\<lambda>c. c \<noteq> CHR '';'') seg))
            else (url, []))
      else if CHR '';'' \<in> set url then split_once CHR '';'' url
      else (butlast url, url))"

definition urlparse ::
  "runtime \<Rightarrow> string \<Rightarrow> exn + (string \<times> string \<times> string \<times> string \<times> string \<times> string)" where
  "urlparse rt url =
     (case urlsplit rt url of
        Inl e \<Rightarrow> Inl e
      | Inr (scheme, netloc, path, query, fragment) \<Rightarrow>
          (let (path1, params) =
                 (if scheme \<in> set uses_params \<and> CHR '';'' \<in> set path then splitparams path
                  else (path, []))
           in Inr (scheme, netloc, path1, params, query, fragment)))"

text \<open>
  \<^verbatim>\<open>urlunsplit\<close> as in CPython 3.11.10, where the double slash is written when
  \<^verbatim>\<open>netloc or (scheme and scheme in uses_netloc) or url[:2] == '//'\<close>. Releases before
  3.11.10 test \<^verbatim>\<open>netloc or (scheme and scheme in uses_netloc and url[:2] != '//')\<close>
  instead; the two agree whenever the netloc is not empty, and the netloc that
  \<^verbatim>\<open>_setup_remote\<close> passes always holds the \<^verbatim>\<open>@\<close> after the token.
\<close>

definition urlunsplit :: "string \<times> string \<times> string \<times> string \<times> string \<Rightarrow> string" where
  "urlunsplit comps =
     (case comps of (scheme, netloc, url, query, fragment) \<Rightarrow>
        (let url1 = (if netloc \<noteq> [] \<or> (scheme \<noteq> [] \<and> scheme \<in> set uses_netloc) \<or> take 2 url = ''//''
                     then ''//'' @ netloc @ (if url \<noteq> [] \<and> take 1 url \<noteq> ''/'' then ''/'' @ url else url)
                     else url);
             url2 = (if scheme \<noteq> [] then scheme @ '':'' @ url1 else url1);
             url3 = (if query \<noteq> [] then url2 @ ''?'' @ query else url2)
         in if fragment \<noteq> [] then url3 @ ''#'' @ fragment else url3))"

definition urlunparse :: "string \<times> string \<times> string \<times> string \<times> string \<times> string \<Rightarrow> string" where
  "urlunparse comps =
     (case comps of (scheme, netloc, url, params, query, fragment) \<Rightarrow>
        urlunsplit (scheme, netloc, if params \<noteq> [] then url @ '';'' @ params else url,
                    query, fragment))"

section \<open>\<^verbatim>\<open>str.format\<close> with the single keyword argument \<^verbatim>\<open>filename\<close>\<close>

text \<open>
  The format string is read from left to right (CPython's \<^verbatim>\<open>MarkupIterator_next\<close> and
  \<^verbatim>\<open>parse_field\<close>): literal text, the escapes \<^verbatim>\<open>{{\<close> and \<^verbatim>\<open>}}\<close>, and replacement fields
  \<^verbatim>\<open>{name!conversion:spec}\<close>. A field is looked up as soon as it has been read, so the
  first error from the left is the one raised.
\<close>

datatype fmt_state =
    FLit | FOpen | FClose
  | FName string | FIndex string
  | FConv string | FConvEnd string char
  | FSpec string "char option" string nat

datatype fmt_next =
    Goto fmt_state | Literal char | Field string "char option" string | Fail exn

definition in_name :: "string \<Rightarrow> char \<Rightarrow> fmt_next" where
  "in_name nm c =
     (if c = CHR ''{'' then Fail (ValueError ''unexpected '{' in field name'')
      else if c = CHR ''['' then Goto (FIndex (nm @ [c]))
      else if c = CHR ''}'' then Field nm None []
      else if c = CHR '':'' then Goto (FSpec nm None [] 1)
      else if c = CHR ''!'' then Goto (FConv nm)
      else Goto (FName (nm @ [c])))"

fun fmt_step :: "fmt_state \<Rightarrow> char \<Rightarrow> fmt_next" where
  "fmt_step FLit c =
     (if c = CHR ''{'' then Goto FOpen else if c = CHR ''}'' then Goto FClose else Literal c)"
| "fmt_step FOpen c = (if c = CHR ''{'' then Literal c else in_name [] c)"
| "fmt_step FClose c =
     (if c = CHR ''}'' then Literal c
      else Fail (ValueError ''Single '}' encountered in format string''))"
| "fmt_step (FName nm) c = in_name nm c"
| "fmt_step (FIndex nm) c =
     (if c = CHR '']'' then Goto (FName (nm @ [c])) else Goto (FIndex (nm @ [c])))"
| "fmt_step (FConv nm) c = Goto (FConvEnd nm c)"
| "fmt_step (FConvEnd nm cv) c =
     (if c = CHR ''}'' then Field nm (Some cv) []
      else if c \<noteq> CHR '':'' then Fail (ValueError ''expected ':' after conversion specifier'')
      else Goto (FSpec nm (Some cv) [] 1))"
| "fmt_step (FSpec nm cv spec depth) c =
     (if c = CHR ''{'' then Goto (FSpec nm cv (spec @ [c]) (Suc depth))
      else if c = CHR ''}'' then
        (if depth - 1 = 0 then Field nm cv spec else Goto (FSpec nm cv (spec @ [c]) (depth - 1)))
      else Goto (FSpec nm cv (spec @ [c]) depth))"

text \<open>The end of the format string in each state.\<close>

fun fmt_end :: "fmt_state \<Rightarrow> exn option" where
  "fmt_end FLit = None"
| "fmt_end FOpen = Some (ValueError ''Single '{' encountered in format string'')"
| "fmt_end FClose = Some (ValueError ''Single '}' encountered in format string'')"
| "fmt_end (FName nm) = Some (ValueError ''expected '}' before end of string'')"
| "fmt_end (FIndex nm) = Some (ValueError ''expected '}' before end of string'')"
| "fmt_end (FConv nm) =
     Some (ValueError ''end of string while looking for conversion specifier'')"
| "fmt_end (FConvEnd nm cv) = Some (ValueError ''unmatched '{' in format spec'')"
| "fmt_end (FSpec nm cv spec depth) = Some (ValueError ''unmatched '{' in format spec'')"

text \<open>\<^verbatim>\<open>get_integer\<close> of a non-empty field name: \<^verbatim>\<open>None\<close> is its \<^verbatim>\<open>-1\<close> (not a number);
  \<^verbatim>\<open>PY_SSIZE_T_MAX\<close> is that of a 64-bit build.\<close>

definition PY_SSIZE_T_MAX :: int where
  "PY_SSIZE_T_MAX = 2 ^ 63 - 1"

fun get_integer :: "int \<Rightarrow> string \<Rightarrow> exn + int option" where
  "get_integer acc [] = Inr (Some acc)"
| "get_integer acc (c # cs) =
     (if c \<notin> set ''0123456789'' then Inr None
      else if acc > (PY_SSIZE_T_MAX - (of_char c - 48)) div 10
      then Inl (ValueError ''Too many decimal digits in format string'')
      else get_integer (acc * 10 + (of_char c - 48)) cs)"

text \<open>The decimal digits of a non-negative integer (\<^verbatim>\<open>%zd\<close>).\<close>

function show_int :: "int \<Rightarrow> string" where
  "show_int n =
     (if n < 10 then [char_of (48 + n)] else show_int (n div 10) @ [char_of (48 + n mod 10)])"
  by pat_completeness auto
termination
  by (relation "measure nat") auto

text \<open>
  \<^verbatim>\<open>get_field_object\<close> and \<^verbatim>\<open>render_field\<close> for \<^verbatim>\<open>template.format(filename=fn)\<close>: there are
  no positional arguments, and \<^verbatim>\<open>filename\<close> is the only keyword. A field that is just
  \<^verbatim>\<open>{filename}\<close> (or \<^verbatim>\<open>{filename:}\<close>) renders the string itself.
\<close>

definition render_field ::
  "runtime \<Rightarrow> string \<Rightarrow> string \<Rightarrow> char option \<Rightarrow> string \<Rightarrow> exn + string" where
  "render_field rt fn nm conv spec =
     (let first = takeWhile (\<lambda>c. c \<noteq> CHR ''.'' \<and> c \<noteq> CHR ''['') nm;
          rest = dropWhile (\<lambda>c. c \<noteq> CHR ''.'' \<and> c \<noteq> CHR ''['') nm
      in case (if first = [] then Inr None else get_integer 0 first) of
           Inl e \<Rightarrow> Inl e
         | Inr idx \<Rightarrow>
             if first = [] \<or> idx \<noteq> None then
               Inl (IndexError (''Replacement index '' @ show_int (case idx of None \<Rightarrow> 0 | Some i \<Rightarrow> i)
                                 @ '' out of range for positional args tuple''))
             else if first \<noteq> ''filename'' then Inl (KeyError first)
             else if rest = [] \<and> conv = None \<and> spec = [] then Inr fn
             else format_str_field rt rest conv spec fn)"

fun py_format_run :: "runtime \<Rightarrow> string \<Rightarrow> fmt_state \<Rightarrow> string \<Rightarrow> string \<Rightarrow> exn + string" where
  "py_format_run rt fn st out [] = (case fmt_end st of Some e \<Rightarrow> Inl e | None \<Rightarrow> Inr out)"
| "py_format_run rt fn st out (c # cs) =
     (case fmt_step st c of
        Fail e \<Rightarrow> Inl e
      | Goto st' \<Rightarrow> py_format_run rt fn st' out cs
      | Literal x \<Rightarrow> py_format_run rt fn FLit (out @ [x]) cs
      | Field nm conv spec \<Rightarrow>
          (case render_field rt fn nm conv spec of
             Inl e \<Rightarrow> Inl e
           | Inr s \<Rightarrow> py_format_run rt fn FLit (out @ s) cs))"

definition py_format :: "runtime \<Rightarrow> string \<Rightarrow> string \<Rightarrow> exn + string" where
  "py_format rt template fn = py_format_run rt fn FLit [] template"

section \<open>The component: class \<^verbatim>\<open>GitBackup\<close>\<close>

text \<open>
  The configuration object of the host: each option as it stands in the configuration
  file (\<^verbatim>\<open>None\<close> when absent), and the directory of the main configuration file after
  \<^verbatim>\<open>normpath\<close> and \<^verbatim>\<open>expanduser\<close>.
\<close>

record config =
  main_config_dir :: string
  opt_enabled :: "bool option"
  opt_remote_url :: "string option"
  opt_github_token :: "string option"
  opt_watched_files :: "string option"
  opt_commit_message :: "string option"
  opt_branch :: "string option"

text \<open>\<^verbatim>\<open>config.get(name, default)\<close>\<close>

definition config_get :: "'a option \<Rightarrow> 'a \<Rightarrow> 'a" where
  "config_get v d = (case v of None \<Rightarrow> d | Some x \<Rightarrow> x)"

text \<open>One constructor for each call of \<^verbatim>\<open>logging.info\<close> and \<^verbatim>\<open>logging.error\<close> in the
  source, with the values its message interpolates.\<close>

datatype log_entry =
    LogDisabled
  | LogInitialized "string list"
  | LogFatalInit exn
  | LogCommandError string string
  | LogRepoExists
  | LogRepoInitializing
  | LogRepoInitialized
  | LogRemoteConfiguring
  | LogRemoteConfigured
  | LogFileSaved string
  | LogNoChange
  | LogBackupDone string
  | LogBackupFailed string exn

text \<open>
  The instance: its attributes, whether the save handler has been registered with the
  host, the machine, and two records of what it did: the argument lists handed to
  \<^verbatim>\<open>subprocess.run\<close>, in order, and the log.
\<close>

record 'w agent =
  config_path :: string
  is_enabled :: bool
  remote_url :: "string option"
  github_token :: "string option"
  watched_files :: "string list"
  commit_message :: string
  branch_name :: string
  registered :: bool
  world :: 'w
  calls :: "string list list"
  logged :: "log_entry list"

definition add_log :: "log_entry \<Rightarrow> 'w agent \<Rightarrow> 'w agent" where
  "add_log e a = a\<lparr>logged := logged a @ [e]\<rparr>"

text \<open>\<^verbatim>\<open>subprocess.run(args, cwd=self.config_path, capture_output=True, text=True,
  check=check)\<close>: with \<^verbatim>\<open>check\<close>, a return code other than 0 raises
  \<^verbatim>\<open>CalledProcessError\<close>.\<close>

definition subprocess_run ::
  "'w host \<Rightarrow> string list \<Rightarrow> bool \<Rightarrow> 'w agent \<Rightarrow> (exn + int \<times> string \<times> string) \<times> 'w agent" where
  "subprocess_run h args check a =
     (case proc_run h (world a) (config_path a) args of
        (Raised e, w) \<Rightarrow> (Inl e, a\<lparr>world := w, calls := calls a @ [args]\<rparr>)
      | (Completed rc out err, w) \<Rightarrow>
          (if check \<and> rc \<noteq> 0 then Inl (CalledProcessError args rc out err)
           else Inr (rc, out, err),
           a\<lparr>world := w, calls := calls a @ [args]\<rparr>))"

text \<open>\<^verbatim>\<open>_run_git_command(command, suppress_errors)\<close>: the stripped standard output, or
  \<^verbatim>\<open>None\<close> from the last line of the function.\<close>

definition run_git_command ::
  "'w host \<Rightarrow> string \<Rightarrow> bool \<Rightarrow> 'w agent \<Rightarrow> (exn + string option) \<times> 'w agent" where
  "run_git_command h command suppress_errors a =
     (case shlex_split command of
        Inl e \<Rightarrow> (Inl e, a)
      | Inr args \<Rightarrow>
          (case subprocess_run h args (\<not> suppress_errors) a of
             (Inr (rc, out, err), a1) \<Rightarrow>
               if rc \<noteq> 0 \<and> \<not> suppress_errors
               then (Inl (Exception (''Erro Git: '' @ py_strip err)), a1)
               else (Inr (Some (py_strip out)), a1)
           | (Inl (CalledProcessError cmd rc out err), a1) \<Rightarrow>
               if \<not> suppress_errors
               then (Inl (CalledProcessError cmd rc out err), add_log (LogCommandError command err) a1)
               else (Inr None, add_log (LogCommandError command err) a1)
           | (Inl e, a1) \<Rightarrow> (Inl e, a1)))"

definition config_error :: exn where
  "config_error =
     Exception (''A 'remote_url' e o 'github_token' s'' @ [CHR 0xE3] @ ''o obrigat''
                 @ [CHR 0xF3] @ ''rios no moonraker.conf'')"

definition validate_config :: "'w agent \<Rightarrow> (exn + unit) \<times> 'w agent" where
  "validate_config a =
     (if falsy (remote_url a) \<or> falsy (github_token a) then (Inl config_error, a)
      else (Inr (), a))"

definition check_git_installed :: "'w host \<Rightarrow> 'w agent \<Rightarrow> (exn + unit) \<times> 'w agent" where
  "check_git_installed h a =
     (case run_git_command h ''git --version'' False a of
        (Inl e, a1) \<Rightarrow>
          (Inl (Exception (''Comando 'git' n'' @ [CHR 0xE3] @ ''o encontrado. ''
                            @ ''Por favor, instale o git para usar o plugin.'')), a1)
      | (Inr out, a1) \<Rightarrow> (Inr (), a1))"

text \<open>The loop of \<^verbatim>\<open>_initialize_repo\<close> over the watched files.\<close>

fun add_watched :: "'w host \<Rightarrow> string list \<Rightarrow> 'w agent \<Rightarrow> (exn + unit) \<times> 'w agent" where
  "add_watched h [] a = (Inr (), a)"
| "add_watched h (filename # rest) a =
     (if path_exists h (world a) (path_join (config_path a) filename)
      then (case run_git_command h (''git add '' @ shlex_quote filename) False a of
              (Inl e, a1) \<Rightarrow> (Inl e, a1)
            | (Inr out, a1) \<Rightarrow> add_watched h rest a1)
      else add_watched h rest a)"

definition initial_commit_message :: string where
  "initial_commit_message =
     ''Commit inicial: Arquivos de configura'' @ [CHR 0xE7, CHR 0xE3] @ ''o monitorados''"

definition initial_commit_command :: string where
  "initial_commit_command = ''git commit -m '' @ [dq] @ initial_commit_message @ [dq]"

definition initialize_repo :: "'w host \<Rightarrow> 'w agent \<Rightarrow> (exn + unit) \<times> 'w agent" where
  "initialize_repo h a =
     (if path_isdir h (world a) (path_join (config_path a) ''.git'')
      then (Inr (), add_log LogRepoExists a)
      else
       (case run_git_command h ''git init'' False (add_log LogRepoInitializing a) of
          (Inl e, a1) \<Rightarrow> (Inl e, a1)
        | (Inr out1, a1) \<Rightarrow>
       (case run_git_command h (''git checkout -b '' @ branch_name a1) False a1 of
          (Inl e, a2) \<Rightarrow> (Inl e, a2)
        | (Inr out2, a2) \<Rightarrow>
       (case run_git_command h
               (''git config user.name '' @ [dq] @ ''Klipper Backup Plugin'' @ [dq]) False a2 of
          (Inl e, a3) \<Rightarrow> (Inl e, a3)
        | (Inr out3, a3) \<Rightarrow>
       (case run_git_command h
               (''git config user.email '' @ [dq] @ ''backup@klipper.local'' @ [dq]) False a3 of
          (Inl e, a4) \<Rightarrow> (Inl e, a4)
        | (Inr out4, a4) \<Rightarrow>
       (case add_watched h (watched_files a4) a4 of
          (Inl e, a5) \<Rightarrow> (Inl e, a5)
        | (Inr u, a5) \<Rightarrow>
       (case run_git_command h initial_commit_command False a5 of
          (Inl e, a6) \<Rightarrow> (Inl e, a6)
        | (Inr out6, a6) \<Rightarrow> (Inr (), add_log LogRepoInitialized a6))))))))"

text \<open>The URL \<^verbatim>\<open>_setup_remote\<close> builds. \<^verbatim>\<open>urlparse(None)\<close> gives a tuple of bytes, which
  \<^verbatim>\<open>urlunparse\<close> refuses to mix with the string holding the token.\<close>

definition url_with_token :: "runtime \<Rightarrow> string option \<Rightarrow> string option \<Rightarrow> exn + string" where
  "url_with_token rt url token =
     (case url of
        None \<Rightarrow> Inl (TypeError ''Cannot mix str and non-str arguments'')
      | Some u \<Rightarrow>
          (case urlparse rt u of
             Inl e \<Rightarrow> Inl e
           | Inr (scheme, netloc, path, params, query, fragment) \<Rightarrow>
               Inr (urlunparse (scheme, py_str token @ ''@'' @ netloc, path, [], [], []))))"

definition setup_remote :: "'w host \<Rightarrow> 'w agent \<Rightarrow> (exn + unit) \<times> 'w agent" where
  "setup_remote h a =
     (case url_with_token (python h) (remote_url a) (github_token a) of
        Inl e \<Rightarrow> (Inl e, add_log LogRemoteConfiguring a)
      | Inr url \<Rightarrow>
       (case run_git_command h ''git remote remove origin'' True (add_log LogRemoteConfiguring a) of
          (Inl e, a1) \<Rightarrow> (Inl e, a1)
        | (Inr out1, a1) \<Rightarrow>
       (case run_git_command h (''git remote add origin '' @ shlex_quote url) False a1 of
          (Inl e, a2) \<Rightarrow> (Inl e, a2)
        | (Inr out2, a2) \<Rightarrow> (Inr (), add_log LogRemoteConfigured a2))))"

text \<open>The body of the \<^verbatim>\<open>try\<close> statement of \<^verbatim>\<open>_on_file_saved\<close>.\<close>

definition backup_steps :: "'w host \<Rightarrow> string \<Rightarrow> string \<Rightarrow> 'w agent \<Rightarrow> (exn + unit) \<times> 'w agent" where
  "backup_steps h filepath filename a =
     (case run_git_command h (''git add '' @ shlex_quote filepath) False a of
        (Inl e, a1) \<Rightarrow> (Inl e, a1)
      | (Inr out1, a1) \<Rightarrow>
     (case run_git_command h ''git status --porcelain'' False a1 of
        (Inl e, a2) \<Rightarrow> (Inl e, a2)
      | (Inr status, a2) \<Rightarrow>
          if status = None \<or> status = Some [] then (Inr (), add_log LogNoChange a2)
          else
     (case py_format (python h) (commit_message a2) filename of
        Inl e \<Rightarrow> (Inl e, a2)
      | Inr commit_msg \<Rightarrow>
     (case run_git_command h (''git commit -m '' @ shlex_quote commit_msg) False a2 of
        (Inl e, a3) \<Rightarrow> (Inl e, a3)
      | (Inr out3, a3) \<Rightarrow>
     (case run_git_command h (''git push origin '' @ branch_name a3) False a3 of
        (Inl e, a4) \<Rightarrow> (Inl e, a4)
      | (Inr out4, a4) \<Rightarrow> (Inr (), add_log (LogBackupDone filename) a4))))))"

text \<open>\<^verbatim>\<open>_on_file_saved(filepath)\<close>: what it raises to the host's dispatcher, if anything, and
  the instance afterwards.\<close>

definition on_file_saved :: "'w host \<Rightarrow> string \<Rightarrow> 'w agent \<Rightarrow> (exn + unit) \<times> 'w agent" where
  "on_file_saved h filepath a =
     (if \<not> is_enabled a then (Inr (), a)
      else if basename filepath \<in> set (watched_files a) then
        (case backup_steps h filepath (basename filepath) (add_log (LogFileSaved (basename filepath)) a) of
           (Inl e, a1) \<Rightarrow> (Inr (), add_log (LogBackupFailed (basename filepath) e) a1)
         | (Inr u, a1) \<Rightarrow> (Inr (), a1))
      else (Inr (), a))"

text \<open>The body of the \<^verbatim>\<open>try\<close> statement of \<^verbatim>\<open>__init__\<close>.\<close>

definition init_steps :: "'w host \<Rightarrow> 'w agent \<Rightarrow> (exn + unit) \<times> 'w agent" where
  "init_steps h a =
     (case validate_config a of
        (Inl e, a1) \<Rightarrow> (Inl e, a1)
      | (Inr u1, a1) \<Rightarrow>
     (case check_git_installed h a1 of
        (Inl e, a2) \<Rightarrow> (Inl e, a2)
      | (Inr u2, a2) \<Rightarrow>
     (case initialize_repo h a2 of
        (Inl e, a3) \<Rightarrow> (Inl e, a3)
      | (Inr u3, a3) \<Rightarrow>
     (case setup_remote h a3 of
        (Inl e, a4) \<Rightarrow> (Inl e, a4)
      | (Inr u4, a4) \<Rightarrow> (Inr (), a4\<lparr>registered := True\<rparr>)))))"

text \<open>\<^verbatim>\<open>GitBackup.__init__(config)\<close> on a machine \<^verbatim>\<open>w\<close>.\<close>

definition GitBackup_init :: "'w host \<Rightarrow> config \<Rightarrow> 'w \<Rightarrow> (exn + unit) \<times> 'w agent" where
  "GitBackup_init h cfg w =
     (let a = \<lparr>config_path = main_config_dir cfg,
                is_enabled = config_get (opt_enabled cfg) False,
                remote_url = opt_remote_url cfg,
                github_token = opt_github_token cfg,
                watched_files =
                  map py_strip (py_split CHR '','' (config_get (opt_watched_files cfg) ''printer.cfg'')),
                commit_message =
                  config_get (opt_commit_message cfg) ''Auto-backup: {filename} modificado'',
                branch_name = config_get (opt_branch cfg) ''main'',
                registered = False,
                world = w, calls = [], logged = []\<rparr>
      in if \<not> is_enabled a then (Inr (), add_log LogDisabled a)
         else
           (case init_steps h (add_log (LogInitialized (watched_files a)) a) of
              (Inl e, a1) \<Rightarrow> (Inr (), (add_log (LogFatalInit e) a1)\<lparr>is_enabled := False\<rparr>)
            | (Inr u, a1) \<Rightarrow> (Inr (), a1)))"

text \<open>The host delivering a sequence of save events, one after the other.\<close>

definition deliver :: "'w host \<Rightarrow> 'w agent \<Rightarrow> string list \<Rightarrow> 'w agent" where
  "deliver h a paths = foldl (\<lambda>s p. snd (on_file_saved h p s)) a paths"

section \<open>A reference machine: one directory, git, one remote server\<close>

text \<open>
  A small machine on which the component can be run: a directory \<^verbatim>\<open>root\<close> with regular
  files, at most one repository in it, and a server that receives pushes. It answers
  the git commands the component issues the way git documents them:
  \<^item> every command but \<^verbatim>\<open>init\<close> and \<^verbatim>\<open>--version\<close> fails with 128 outside a repository;
  \<^item> \<^verbatim>\<open>checkout -b\<close> points HEAD at the new branch (on a repository without commits this
    only renames the unborn branch);
  \<^item> \<^verbatim>\<open>add\<close> of a path copies the file into the index, and fails with 128 when the path
    is empty or matches nothing;
  \<^item> \<^verbatim>\<open>status --porcelain\<close> prints one line for each tracked path whose index entry
    differs from HEAD or from the working tree, and one \<^verbatim>\<open>??\<close> line for each untracked
    file;
  \<^item> \<^verbatim>\<open>commit -m\<close> fails with 128 without an identity, and with 1 when the index is the
    tree of HEAD (nothing to commit) or the message is empty;
  \<^item> \<^verbatim>\<open>remote remove\<close> of a missing remote fails with 2, \<^verbatim>\<open>remote add\<close> of an existing one
    with 3;
  \<^item> \<^verbatim>\<open>push\<close> fails with 128 for an unknown remote or an unreachable server, with 1 when
    the branch has no commit.
  Outside the model: other directories and repositories, ignore files, the validity of
  reference names, rejected pushes, the order of the lines of \<^verbatim>\<open>status\<close>. Any other
  argument list is answered with git's usage error 129.
\<close>

record repo =
  head_ref :: string
  user_name :: "string option"
  user_email :: "string option"
  staged :: "(string \<times> string) list"
  commits :: "(string \<times> (string \<times> string) list) list"
  remotes :: "(string \<times> string) list"

record machine =
  git_installed :: bool
  root :: string
  files :: "(string \<times> string) list"
  repository :: "repo option"
  ambient_identity :: bool
  remote_reachable :: bool
  received :: "(string \<times> string \<times> nat) list"

definition fresh_repo :: repo where
  "fresh_repo = \<lparr>head_ref = ''master'', user_name = None, user_email = None,
                  staged = [], commits = [], remotes = []\<rparr>"

definition head_tree :: "repo \<Rightarrow> (string \<times> string) list" where
  "head_tree r = (if commits r = [] then [] else snd (last (commits r)))"

definition same_tree :: "(string \<times> string) list \<Rightarrow> (string \<times> string) list \<Rightarrow> bool" where
  "same_tree s t \<longleftrightarrow> list_all (\<lambda>p. map_of s p = map_of t p) (map fst s @ map fst t)"

definition status_lines :: "machine \<Rightarrow> repo \<Rightarrow> string list" where
  "status_lines m r =
     (let x = (\<lambda>p. case (map_of (head_tree r) p, map_of (staged r) p) of
                      (None, None) \<Rightarrow> CHR '' ''
                    | (None, Some b) \<Rightarrow> CHR ''A''
                    | (Some a, None) \<Rightarrow> CHR ''D''
                    | (Some a, Some b) \<Rightarrow> if a = b then CHR '' '' else CHR ''M'');
          y = (\<lambda>p. case (map_of (staged r) p, map_of (files m) p) of
                      (None, f) \<Rightarrow> CHR '' ''
                    | (Some a, None) \<Rightarrow> CHR ''D''
                    | (Some a, Some b) \<Rightarrow> if a = b then CHR '' '' else CHR ''M'')
      in map (\<lambda>p. [x p, y p] @ '' '' @ p)
           (filter (\<lambda>p. x p \<noteq> CHR '' '' \<or> y p \<noteq> CHR '' '')
              (remdups (map fst (head_tree r) @ map fst (staged r))))
         @ map (\<lambda>p. ''?? '' @ p)
             (filter (\<lambda>p. map_of (staged r) p = None) (remdups (map fst (files m)))))"

definition not_a_repository :: "machine \<Rightarrow> proc_outcome \<times> machine" where
  "not_a_repository m =
     (Completed 128 [] (''fatal: not a git repository (or any of the parent directories): .git''
                         @ [CHR 0x0A]), m)"

definition usage_error :: "machine \<Rightarrow> proc_outcome \<times> machine" where
  "usage_error m = (Completed 129 [] (''usage: git <command> [<args>]'' @ [CHR 0x0A]), m)"

definition git_add :: "machine \<Rightarrow> repo \<Rightarrow> string \<Rightarrow> proc_outcome \<times> machine" where
  "git_add m r p =
     (let q = (if take (Suc (length (root m))) p = root m @ ''/''
               then drop (Suc (length (root m))) p else p)
      in if q = [] then
           (Completed 128 [] (''fatal: empty string is not a valid pathspec'' @ [CHR 0x0A]), m)
         else
           (case map_of (files m) q of
              Some content \<Rightarrow>
                (Completed 0 [] [],
                 m\<lparr>repository := Some (r\<lparr>staged := AList.update q content (staged r)\<rparr>)\<rparr>)
            | None \<Rightarrow>
                if map_of (staged r) q \<noteq> None
                then (Completed 0 [] [],
                      m\<lparr>repository := Some (r\<lparr>staged := AList.delete q (staged r)\<rparr>)\<rparr>)
                else (Completed 128 []
                        (''fatal: pathspec '' @ [sq] @ q @ [sq] @ '' did not match any files''
                           @ [CHR 0x0A]), m)))"

definition git_commit :: "machine \<Rightarrow> repo \<Rightarrow> string \<Rightarrow> proc_outcome \<times> machine" where
  "git_commit m r msg =
     (if \<not> ((user_name r \<noteq> None \<and> user_email r \<noteq> None) \<or> ambient_identity m) then
        (Completed 128 [] (''fatal: unable to auto-detect email address'' @ [CHR 0x0A]), m)
      else if same_tree (staged r) (head_tree r) then
        (Completed 1 (''nothing to commit'' @ [CHR 0x0A]) [], m)
      else if py_strip msg = [] then
        (Completed 1 [] (''Aborting commit due to empty commit message.'' @ [CHR 0x0A]), m)
      else
        (Completed 0 (''['' @ head_ref r @ ''] '' @ msg @ [CHR 0x0A]) [],
         m\<lparr>repository := Some (r\<lparr>commits := commits r @ [(msg, staged r)]\<rparr>)\<rparr>))"

definition git_push :: "machine \<Rightarrow> repo \<Rightarrow> string \<Rightarrow> string \<Rightarrow> proc_outcome \<times> machine" where
  "git_push m r name branch =
     (case map_of (remotes r) name of
        None \<Rightarrow>
          (Completed 128 []
             (''fatal: '' @ [sq] @ name @ [sq] @ '' does not appear to be a git repository''
                @ [CHR 0x0A]), m)
      | Some url \<Rightarrow>
          if branch \<noteq> head_ref r \<or> commits r = [] then
            (Completed 1 []
               (''error: src refspec '' @ branch @ '' does not match any'' @ [CHR 0x0A]), m)
          else if \<not> remote_reachable m then
            (Completed 128 [] (''fatal: unable to access '' @ [sq] @ url @ [sq] @ [CHR 0x0A]), m)
          else
            (Completed 0 [] [],
             m\<lparr>received := received m @ [(url, branch, length (commits r))]\<rparr>))"

definition git_in_repo :: "machine \<Rightarrow> repo \<Rightarrow> string list \<Rightarrow> proc_outcome \<times> machine" where
  "git_in_repo m r args =
     (case args of
        [c] \<Rightarrow>
          if c = ''init'' then (Completed 0 (''Reinitialized existing Git repository'' @ [CHR 0x0A]) [], m)
          else usage_error m
      | [c, x] \<Rightarrow>
          if c = ''add'' then git_add m r x
          else if c = ''status'' \<and> x = ''--porcelain'' then
            (Completed 0 (concat (map (\<lambda>l. l @ [CHR 0x0A]) (status_lines m r))) [], m)
          else usage_error m
      | [c, x, y] \<Rightarrow>
          if c = ''checkout'' \<and> x = ''-b'' then
            (if commits r \<noteq> [] \<and> y = head_ref r then
               (Completed 128 []
                  (''fatal: a branch named '' @ [sq] @ y @ [sq] @ '' already exists'' @ [CHR 0x0A]), m)
             else (Completed 0 [] (''Switched to a new branch '' @ [sq] @ y @ [sq] @ [CHR 0x0A]),
                   m\<lparr>repository := Some (r\<lparr>head_ref := y\<rparr>)\<rparr>))
          else if c = ''config'' \<and> x = ''user.name'' then
            (Completed 0 [] [], m\<lparr>repository := Some (r\<lparr>user_name := Some y\<rparr>)\<rparr>)
          else if c = ''config'' \<and> x = ''user.email'' then
            (Completed 0 [] [], m\<lparr>repository := Some (r\<lparr>user_email := Some y\<rparr>)\<rparr>)
          else if c = ''commit'' \<and> x = ''-m'' then git_commit m r y
          else if c = ''remote'' \<and> x = ''remove'' then
            (if map_of (remotes r) y = None then
               (Completed 2 [] (''error: No such remote: '' @ [sq] @ y @ [sq] @ [CHR 0x0A]), m)
             else (Completed 0 [] [],
                   m\<lparr>repository := Some (r\<lparr>remotes := AList.delete y (remotes r)\<rparr>)\<rparr>))
          else if c = ''push'' then git_push m r x y
          else usage_error m
      | [c, x, y, z] \<Rightarrow>
          if c = ''remote'' \<and> x = ''add'' then
            (if map_of (remotes r) y \<noteq> None then
               (Completed 3 [] (''error: remote '' @ y @ '' already exists.'' @ [CHR 0x0A]), m)
             else (Completed 0 [] [],
                   m\<lparr>repository := Some (r\<lparr>remotes := remotes r @ [(y, z)]\<rparr>)\<rparr>))
          else usage_error m
      | _ \<Rightarrow> usage_error m)"

definition git_run :: "machine \<Rightarrow> string \<Rightarrow> string list \<Rightarrow> proc_outcome \<times> machine" where
  "git_run m cwd args =
     (if \<not> git_installed m \<or> cwd \<noteq> root m \<or> take 1 args \<noteq> [''git''] then
        (Raised (OSError ''No such file or directory''), m)
      else if args = [''git'', ''--version''] then
        (Completed 0 (''git version 2.39.5'' @ [CHR 0x0A]) [], m)
      else
        (case repository m of
           None \<Rightarrow>
             if args = [''git'', ''init''] then
               (Completed 0 (''Initialized empty Git repository'' @ [CHR 0x0A]) [],
                m\<lparr>repository := Some fresh_repo\<rparr>)
             else not_a_repository m
         | Some r \<Rightarrow> git_in_repo m r (tl args)))"

definition machine_isdir :: "machine \<Rightarrow> string \<Rightarrow> bool" where
  "machine_isdir m p \<longleftrightarrow>
     p = root m \<or> p = root m @ ''/'' \<or> (repository m \<noteq> None \<and> p = path_join (root m) ''.git'')"

definition machine_exists :: "machine \<Rightarrow> string \<Rightarrow> bool" where
  "machine_exists m p \<longleftrightarrow>
     machine_isdir m p \<or> p \<in> set (map (\<lambda>f. root m @ ''/'' @ fst f) (files m))"

definition machine_host :: "runtime \<Rightarrow> machine host" where
  "machine_host rt = \<lparr>python = rt, proc_run = git_run,
                       path_isdir = machine_isdir, path_exists = machine_exists\<rparr>"

subsection \<open>Values for the examples\<close>

text \<open>A runtime for the examples: none of the runs below reaches its three functions.\<close>

definition plain_runtime :: runtime where
  "plain_runtime =
     \<lparr>check_bracketed_host = (\<lambda>s. Some (ValueError ''bracketed host'')),
      checknetloc_nonascii = (\<lambda>s. Some (ValueError ''netloc'')),
      format_str_field = (\<lambda>rest conv spec s. Inl (ValueError ''format field''))\<rparr>"

definition example_config :: config where
  "example_config =
     \<lparr>main_config_dir = ''/home/pi/printer_data/config'',
      opt_enabled = Some True,
      opt_remote_url = Some ''https://github.com/user/repo.git'',
      opt_github_token = Some ''abc123'',
      opt_watched_files = None,
      opt_commit_message = None,
      opt_branch = None\<rparr>"

text \<open>A directory with the printer configuration and one more file, no repository yet.\<close>

definition example_machine :: machine where
  "example_machine =
     \<lparr>git_installed = True,
      root = ''/home/pi/printer_data/config'',
      files = [(''printer.cfg'', ''[printer]''), (''moonraker.conf'', ''[server]'')],
      repository = None,
      ambient_identity = False,
      remote_reachable = True,
      received = []\<rparr>"

section \<open>Notions used to state the properties\<close>

text \<open>Two instances with the same attributes (everything but the machine, the record of
  subprocess calls and the log).\<close>

definition same_settings :: "'w agent \<Rightarrow> 'w agent \<Rightarrow> bool" where
  "same_settings a b \<longleftrightarrow>
     config_path b = config_path a \<and> is_enabled b = is_enabled a
     \<and> remote_url b = remote_url a \<and> github_token b = github_token a
     \<and> watched_files b = watched_files a \<and> commit_message b = commit_message a
     \<and> branch_name b = branch_name a \<and> registered b = registered a"

text \<open>A string that the shell lexer reads as it stands, as part of one word: no
  whitespace, no quote, no backslash.\<close>

definition shell_plain :: "string \<Rightarrow> bool" where
  "shell_plain s \<longleftrightarrow>
     list_all (\<lambda>c. c \<notin> set shlex_whitespace \<and> c \<noteq> sq \<and> c \<noteq> dq \<and> c \<noteq> backslash) s"

text \<open>The instance after \<^verbatim>\<open>__init__\<close> with the example configuration on the example
  machine (see \<^verbatim>\<open>example_init\<close> below).\<close>

definition example_agent :: "machine agent" where
  "example_agent =
     \<lparr>config_path = ''/home/pi/printer_data/config'', is_enabled = True,
      remote_url = Some ''https://github.com/user/repo.git'',
      github_token = Some ''abc123'', watched_files = [''printer.cfg''],
      commit_message = ''Auto-backup: {filename} modificado'',
      branch_name = ''main'', registered = True,
      world =
        \<lparr>git_installed = True, root = ''/home/pi/printer_data/config'',
         files = [(''printer.cfg'', ''[printer]''), (''moonraker.conf'', ''[server]'')],
         repository =
           Some \<lparr>head_ref = ''main'',
                  user_name = Some ''Klipper Backup Plugin'',
                  user_email = Some ''backup@klipper.local'',
                  staged = [(''printer.cfg'', ''[printer]'')],
                  commits = [(initial_commit_message, [(''printer.cfg'', ''[printer]'')])],
                  remotes = [(''origin'', ''https://abc123@github.com/user/repo.git'')]\<rparr>,
         ambient_identity = False, remote_reachable = True, received = []\<rparr>,
      calls =
        [[''git'', ''--version''], [''git'', ''init''],
         [''git'', ''checkout'', ''-b'', ''main''],
         [''git'', ''config'', ''user.name'', ''Klipper Backup Plugin''],
         [''git'', ''config'', ''user.email'', ''backup@klipper.local''],
         [''git'', ''add'', ''printer.cfg''],
         [''git'', ''commit'', ''-m'', initial_commit_message],
         [''git'', ''remote'', ''remove'', ''origin''],
         [''git'', ''remote'', ''add'', ''origin'', ''https://abc123@github.com/user/repo.git'']],
      logged =
        [LogInitialized [''printer.cfg''], LogRepoInitializing, LogRepoInitialized,
         LogRemoteConfiguring, LogRemoteConfigured]\<rparr>"



text \<open>
  A commit-message template read as a sequence of segments: literal text without braces,
  the placeholder \<^verbatim>\<open>{filename}\<close>, and the two escapes \<^verbatim>\<open>{{\<close> and \<^verbatim>\<open>}}\<close>. Its rendering
  puts the file name in place of every placeholder and a single brace in place of
  every escape.
\<close>

datatype segment = Text string | FilenameField | OpenBrace | CloseBrace

definition brace_free :: "string \<Rightarrow> bool" where
  "brace_free s \<longleftrightarrow> list_all (\<lambda>c. c \<noteq> CHR ''{'' \<and> c \<noteq> CHR ''}'') s"

fun segment_source :: "segment \<Rightarrow> string" where
  "segment_source (Text t) = t"
| "segment_source FilenameField = ''{filename}''"
| "segment_source OpenBrace = ''{{''"
| "segment_source CloseBrace = ''}}''"


fun segment_ok :: "segment \<Rightarrow> bool" where
  "segment_ok (Text t) = brace_free t"
| "segment_ok s = True"




fun name_part :: "bool \<Rightarrow> string \<Rightarrow> bool" where
  "name_part inside [] = (\<not> inside)"
| "name_part inside (c # cs) =
     (if inside then name_part (c \<noteq> CHR '']'') cs
      else c \<notin> set ''{}!:'' \<and> name_part (c = CHR ''['') cs)"

fun spec_part :: "nat \<Rightarrow> string \<Rightarrow> bool" where
  "spec_part d [] = (d = 0)"
| "spec_part d (c # cs) =
     (if c = CHR ''{'' then spec_part (Suc d) cs
      else if c = CHR ''}'' then 0 < d \<and> spec_part (d - 1) cs
      else spec_part d cs)"

text \<open>
  The pieces of a template that is read without a syntax error: the segments above, and
  any replacement field, whatever it names.
\<close>

datatype piece = Plain segment | AnyField string "char option" "string option"

definition field_source :: "string \<Rightarrow> char option \<Rightarrow> string option \<Rightarrow> string" where
  "field_source nm cv sp =
     nm @ (case cv of None \<Rightarrow> [] | Some c \<Rightarrow> [CHR ''!'', c])
        @ (case sp of None \<Rightarrow> [] | Some s \<Rightarrow> CHR '':'' # s)"

fun piece_source :: "piece \<Rightarrow> string" where
  "piece_source (Plain s) = segment_source s"
| "piece_source (AnyField nm cv sp) = ''{'' @ field_source nm cv sp @ ''}''"

fun piece_ok :: "piece \<Rightarrow> bool" where
  "piece_ok (Plain s) \<longleftrightarrow> segment_ok s"
| "piece_ok (AnyField nm cv sp) \<longleftrightarrow>
     name_part False nm \<and> (case sp of None \<Rightarrow> True | Some s \<Rightarrow> spec_part 0 s)"

definition pieces_source :: "piece list \<Rightarrow> string" where
  "pieces_source ps = concat (map piece_source ps)"

text \<open>
  A field that the end of the template leaves open: the text after its opening brace
  ends inside the field name, inside an index, in the conversion, or inside the format
  spec with a brace still open.
\<close>

fun open_spec :: "nat \<Rightarrow> string \<Rightarrow> bool" where
  "open_spec d [] = True"
| "open_spec d (c # cs) =
     (if c = CHR ''{'' then open_spec (Suc d) cs
      else if c = CHR ''}'' then 0 < d \<and> open_spec (d - 1) cs
      else open_spec d cs)"

fun open_conv :: "string \<Rightarrow> bool" where
  "open_conv (c # x # cs) = (x = CHR '':'' \<and> open_spec 0 cs)"
| "open_conv cs = True"

fun open_field :: "bool \<Rightarrow> string \<Rightarrow> bool" where
  "open_field inside [] = True"
| "open_field inside (c # cs) =
     (if inside then open_field (c \<noteq> CHR '']'') cs
      else if c = CHR '':'' then open_spec 0 cs
      else if c = CHR ''!'' then open_conv cs
      else c \<notin> set ''{}'' \<and> open_field (c = CHR ''['') cs)"

text \<open>
  What can follow such pieces and make the template one that names something other than
  \<^verbatim>\<open>filename\<close> or whose braces are not balanced:
  \<^item> \<^verbatim>\<open>OtherField nm rest\<close>: a replacement field whose argument name \<^verbatim>\<open>nm\<close> is not
    \<^verbatim>\<open>filename\<close> (it may be empty or a number), followed by anything: the rest of the
    field (an attribute, an index, a conversion, a format spec), its closing brace if it
    has one, and the rest of the template;
  \<^item> \<^verbatim>\<open>BraceInName nm rest\<close>: an opening brace inside a field name;
  \<^item> \<^verbatim>\<open>BadConversion nm c rest\<close>: a conversion that is followed by neither \<^verbatim>\<open>}\<close> nor \<^verbatim>\<open>:\<close>;
  \<^item> \<^verbatim>\<open>Unclosed u\<close>: an opening brace whose field the template never closes;
  \<^item> \<^verbatim>\<open>LoneClose rest\<close>: a closing brace that is not doubled, followed by anything.
\<close>

datatype defect =
    OtherField string string
  | BraceInName string string
  | BadConversion string char string
  | Unclosed string
  | LoneClose string

fun defect_source :: "defect \<Rightarrow> string" where
  "defect_source (OtherField nm rest) = ''{'' @ nm @ rest"
| "defect_source (BraceInName nm rest) = ''{'' @ nm @ ''{'' @ rest"
| "defect_source (BadConversion nm c rest) = ''{'' @ nm @ [CHR ''!'', c] @ rest"
| "defect_source (Unclosed u) = ''{'' @ u"
| "defect_source (LoneClose rest) = ''}'' @ rest"

fun is_defect :: "defect \<Rightarrow> bool" where
  "is_defect (OtherField nm rest) \<longleftrightarrow>
     list_all (\<lambda>c. c \<notin> set ''{}[!:.'') nm \<and> nm \<noteq> ''filename''
     \<and> (rest = [] \<or> hd rest \<in> set ''{}[!:.'') \<and> take 1 (nm @ rest) \<noteq> ''{''"
| "is_defect (BraceInName nm rest) \<longleftrightarrow> name_part False nm \<and> nm \<noteq> []"
| "is_defect (BadConversion nm c rest) \<longleftrightarrow>
     name_part False nm \<and> rest \<noteq> [] \<and> hd rest \<notin> set ''}:''"
| "is_defect (Unclosed u) \<longleftrightarrow> open_field False u \<and> take 1 u \<noteq> ''{''"
| "is_defect (LoneClose rest) \<longleftrightarrow> take 1 rest \<noteq> ''}''"









text \<open>The machine that \<^verbatim>\<open>__init__\<close> leaves when the watched file is missing: the repository
  has been created and given its branch and identity, nothing is committed and no remote
  is configured.\<close>

definition stalled_machine :: machine where
  "stalled_machine =
     \<lparr>git_installed = True,
      root = ''/home/pi/printer_data/config'',
      files = [(''moonraker.conf'', ''[server]'')],
      repository =
        Some \<lparr>head_ref = ''main'', user_name = Some ''Klipper Backup Plugin'',
               user_email = Some ''backup@klipper.local'',
               staged = [], commits = [], remotes = []\<rparr>,
      ambient_identity = False,
      remote_reachable = True,
      received = []\<rparr>"

text \<open>
  A configuration whose branch name has an apostrophe (git accepts such a name), a
  directory that already holds a repository on that branch, with \<^verbatim>\<open>printer.cfg\<close>
  committed and then edited, and the instance after \<^verbatim>\<open>__init__\<close> there.
\<close>

definition apostrophe_config :: config where
  "apostrophe_config = example_config\<lparr>opt_branch := Some ''it's''\<rparr>"

definition apostrophe_machine :: machine where
  "apostrophe_machine =
     \<lparr>git_installed = True,
      root = ''/home/pi/printer_data/config'',
      files = [(''printer.cfg'', ''[printer] v2''), (''moonraker.conf'', ''[server]'')],
      repository =
        Some \<lparr>head_ref = ''it's'',
               user_name = Some ''pi'', user_email = Some ''pi@klipper.local'',
               staged = [(''printer.cfg'', ''[printer]'')],
               commits = [(''first'', [(''printer.cfg'', ''[printer]'')])],
               remotes = []\<rparr>,
      ambient_identity = False,
      remote_reachable = True,
      received = []\<rparr>"

definition apostrophe_agent :: "machine agent" where
  "apostrophe_agent =
     \<lparr>config_path = ''/home/pi/printer_data/config'', is_enabled = True,
      remote_url = Some ''https://github.com/user/repo.git'',
      github_token = Some ''abc123'', watched_files = [''printer.cfg''],
      commit_message = ''Auto-backup: {filename} modificado'',
      branch_name = ''it's'', registered = True,
      world =
        apostrophe_machine\<lparr>repository :=
          Some \<lparr>head_ref = ''it's'',
                 user_name = Some ''pi'', user_email = Some ''pi@klipper.local'',
                 staged = [(''printer.cfg'', ''[printer]'')],
                 commits = [(''first'', [(''printer.cfg'', ''[printer]'')])],
                 remotes = [(''origin'', ''https://abc123@github.com/user/repo.git'')]\<rparr>\<rparr>,
      calls =
        [[''git'', ''--version''], [''git'', ''remote'', ''remove'', ''origin''],
         [''git'', ''remote'', ''add'', ''origin'', ''https://abc123@github.com/user/repo.git'']],
      logged =
        [LogInitialized [''printer.cfg''], LogRepoExists,
         LogRemoteConfiguring, LogRemoteConfigured]\<rparr>"

section \<open>Preservation of the attributes\<close>

text \<open>No step of the component changes an attribute, except where \<^verbatim>\<open>__init__\<close> sets
  \<^verbatim>\<open>is_enabled\<close> and registers the handler.\<close>

lemma same_settings_refl: "same_settings a a"
  by (simp add: same_settings_def)

lemma same_settings_trans: "same_settings a b \<Longrightarrow> same_settings b c \<Longrightarrow> same_settings a c"
  by (simp add: same_settings_def)

lemma same_settings_add_log: "same_settings a (add_log e a)"
  by (simp add: same_settings_def add_log_def)

lemma subprocess_run_settings: "same_settings a (snd (subprocess_run h args chk a))"
  unfolding subprocess_run_def same_settings_def
  by (auto split: prod.splits proc_outcome.splits)

lemma run_git_command_settings: "same_settings a (snd (run_git_command h c s a))"
proof (cases "shlex_split c")
  case (Inl e)
  then show ?thesis by (simp add: run_git_command_def same_settings_refl)
next
  case (Inr args)
  obtain r a1 where sr: "subprocess_run h args (\<not> s) a = (r, a1)"
    by (cases "subprocess_run h args (\<not> s) a") auto
  have "same_settings a a1"
    using subprocess_run_settings [of a h args "\<not> s"] sr by simp
  then show ?thesis
    unfolding run_git_command_def using Inr sr
    by (auto simp: add_log_def same_settings_def split: sum.splits exn.splits prod.splits)
qed

lemma run_git_command_settings': "run_git_command h c s a = (r, b) \<Longrightarrow> same_settings a b"
  using run_git_command_settings [of a h c s] by simp

lemma add_watched_settings: "same_settings a (snd (add_watched h fs a))"
proof (induction fs arbitrary: a)
  case Nil
  then show ?case by (simp add: same_settings_refl)
next
  case (Cons f fs)
  show ?case
  proof (cases "path_exists h (world a) (path_join (config_path a) f)")
    case False
    then show ?thesis using Cons.IH [of a] by simp
  next
    case True
    obtain r a1 where rg: "run_git_command h (''git add '' @ shlex_quote f) False a = (r, a1)"
      by (cases "run_git_command h (''git add '' @ shlex_quote f) False a") auto
    have s1: "same_settings a a1" using rg by (rule run_git_command_settings')
    show ?thesis
    proof (cases r)
      case (Inl e)
      then show ?thesis using True rg s1 by simp
    next
      case (Inr out)
      then show ?thesis
        using True rg same_settings_trans [OF s1 Cons.IH [of a1]] by simp
    qed
  qed
qed

lemma add_watched_settings': "add_watched h fs a = (r, b) \<Longrightarrow> same_settings a b"
  using add_watched_settings [of a h fs] by simp

lemma check_git_installed_settings': "check_git_installed h a = (r, b) \<Longrightarrow> same_settings a b"
  unfolding check_git_installed_def
  by (auto split: prod.splits sum.splits dest: run_git_command_settings')

lemma validate_config_settings': "validate_config a = (r, b) \<Longrightarrow> b = a"
  unfolding validate_config_def by (auto split: if_splits)

lemma initialize_repo_settings': "initialize_repo h a = (r, b) \<Longrightarrow> same_settings a b"
  unfolding initialize_repo_def
  by (auto split: if_splits prod.splits sum.splits
      dest!: run_git_command_settings' add_watched_settings'
      simp: same_settings_def add_log_def)

lemma setup_remote_settings': "setup_remote h a = (r, b) \<Longrightarrow> same_settings a b"
  unfolding setup_remote_def
  by (auto split: if_splits prod.splits sum.splits
      dest!: run_git_command_settings'
      simp: same_settings_def add_log_def)




section \<open>The watched files\<close>

lemma init_steps_settings':
  "init_steps h a = (r, b) \<Longrightarrow>
     config_path b = config_path a \<and> is_enabled b = is_enabled a
     \<and> remote_url b = remote_url a \<and> github_token b = github_token a
     \<and> watched_files b = watched_files a \<and> commit_message b = commit_message a
     \<and> branch_name b = branch_name a"
  unfolding init_steps_def
  by (auto split: prod.splits sum.splits
      dest!: validate_config_settings' check_git_installed_settings'
             initialize_repo_settings' setup_remote_settings'
      simp: same_settings_def)

lemma init_watched_files:
  "watched_files (snd (GitBackup_init h cfg w)) =
     map py_strip (py_split CHR '','' (config_get (opt_watched_files cfg) ''printer.cfg''))"
  unfolding GitBackup_init_def Let_def
  by (auto split: prod.splits sum.splits dest!: init_steps_settings' simp: add_log_def)

lemma py_split_length: "length (py_split c s) = Suc (count_list s c)"
  by (induction s) (auto split: list.splits)

lemma py_split_nonempty: "py_split c s \<noteq> []"
  using py_split_length [of c s] by auto

lemma py_split_no_sep: "list_all (\<lambda>e. c \<notin> set e) (py_split c s)"
  by (induction s) (auto split: list.splits)

lemma py_strip_subset: "set (py_strip s) \<subseteq> set s"
  unfolding py_strip_def by (auto dest!: set_dropWhileD)

lemma py_strip_hd: "py_strip s \<noteq> [] \<Longrightarrow> \<not> py_isspace (hd (py_strip s))"
proof -
  assume ne: "py_strip s \<noteq> []"
  let ?t = "dropWhile py_isspace s"
  have tne: "?t \<noteq> []"
  proof
    assume "?t = []"
    then have "py_strip s = []" unfolding py_strip_def by (simp only: rev.simps dropWhile.simps)
    with ne show False by simp
  qed
  have h: "\<not> py_isspace (hd ?t)" using tne hd_dropWhile by blast
  have "rev (dropWhile py_isspace (rev ?t)) \<noteq> []" using ne by (simp add: py_strip_def)
  then have "hd (rev (dropWhile py_isspace (rev ?t))) = hd ?t"
    by (metis hd_append2 rev_append
        rev_rev_ident takeWhile_dropWhile_id)
  then show ?thesis using h by (simp add: py_strip_def)
qed

lemma py_strip_last: "py_strip s \<noteq> [] \<Longrightarrow> \<not> py_isspace (last (py_strip s))"
proof -
  assume ne: "py_strip s \<noteq> []"
  let ?u = "dropWhile py_isspace (rev (dropWhile py_isspace s))"
  have une: "?u \<noteq> []" using ne by (simp add: py_strip_def)
  have "\<not> py_isspace (hd ?u)" using une hd_dropWhile by blast
  moreover have "last (rev ?u) = hd ?u" using une by (simp add: last_rev)
  ultimately show ?thesis by (simp add: py_strip_def)
qed

lemma watched_entries_trimmed:
  "list_all (\<lambda>e. CHR '','' \<notin> set e \<and> (e = [] \<or> \<not> py_isspace (hd e) \<and> \<not> py_isspace (last e)))
     (map py_strip (py_split CHR '','' s))"
proof -
  have "\<And>e. CHR '','' \<notin> set e \<Longrightarrow> CHR '','' \<notin> set (py_strip e)"
    using py_strip_subset by blast
  then show ?thesis
    using py_split_no_sep [of "CHR '',''" s] py_strip_hd py_strip_last
    by (auto simp: list_all_iff)
qed

section \<open>Configuration: watched files, missing settings, the disabled agent\<close>

lemma deliver_disabled: "\<not> is_enabled a \<Longrightarrow> deliver h a ps = a"
  unfolding deliver_def by (induction ps) (simp_all add: on_file_saved_def)

text \<open>
  C8 (as amended): the watched-files value is split on commas and every entry is trimmed
  of the whitespace around it; entries that are empty after trimming are kept. The
  resulting list is that of the instance after \<^verbatim>\<open>__init__\<close>, has one entry more than the
  value has commas, and its entries hold no comma and neither start nor end with
  whitespace.
\<close>

theorem watched_files_split_and_trimmed:
  "watched_files (snd (GitBackup_init h cfg w)) =
     map py_strip (py_split CHR '','' (config_get (opt_watched_files cfg) ''printer.cfg''))
   \<and> length (watched_files (snd (GitBackup_init h cfg w))) =
       Suc (count_list (config_get (opt_watched_files cfg) ''printer.cfg'') CHR '','')
   \<and> list_all (\<lambda>e. CHR '','' \<notin> set e \<and> (e = [] \<or> \<not> py_isspace (hd e) \<and> \<not> py_isspace (last e)))
       (watched_files (snd (GitBackup_init h cfg w)))"
  by (simp add: init_watched_files py_split_length watched_entries_trimmed)

theorem watched_files_keep_empty_names:
  "[] \<in> set (watched_files (snd (GitBackup_init (machine_host plain_runtime)
       (example_config\<lparr>opt_watched_files := Some ''printer.cfg, ,macros.cfg''\<rparr>)
       example_machine)))"
  by (simp add: init_watched_files example_config_def config_get_def py_strip_def py_isspace_def)

text \<open>
  C7: with \<^verbatim>\<open>enabled\<close> true and \<^verbatim>\<open>remote_url\<close> or the token empty or absent,
  \<^verbatim>\<open>__init__\<close> returns with the configuration error logged as fatal, the instance
  disabled and no handler registered; no subprocess has been run and the machine is
  untouched; every later save event returns at once and changes nothing.
\<close>

theorem missing_settings_disable_the_agent:
  assumes "opt_enabled cfg = Some True"
    and "falsy (opt_remote_url cfg) \<or> falsy (opt_github_token cfg)"
  shows "fst (GitBackup_init h cfg w) = Inr ()
    \<and> \<not> is_enabled (snd (GitBackup_init h cfg w))
    \<and> \<not> registered (snd (GitBackup_init h cfg w))
    \<and> calls (snd (GitBackup_init h cfg w)) = []
    \<and> world (snd (GitBackup_init h cfg w)) = w
    \<and> logged (snd (GitBackup_init h cfg w)) =
        [LogInitialized (watched_files (snd (GitBackup_init h cfg w))), LogFatalInit config_error]
    \<and> (\<forall>p. on_file_saved h p (snd (GitBackup_init h cfg w)) = (Inr (), snd (GitBackup_init h cfg w)))
    \<and> (\<forall>ps. deliver h (snd (GitBackup_init h cfg w)) ps = snd (GitBackup_init h cfg w))"
proof -
  let ?a = "snd (GitBackup_init h cfg w)"
  have run: "GitBackup_init h cfg w =
      (Inr (), \<lparr>config_path = main_config_dir cfg, is_enabled = False,
         remote_url = opt_remote_url cfg, github_token = opt_github_token cfg,
         watched_files = map py_strip (py_split CHR '','' (config_get (opt_watched_files cfg) ''printer.cfg'')),
         commit_message = config_get (opt_commit_message cfg) ''Auto-backup: {filename} modificado'',
         branch_name = config_get (opt_branch cfg) ''main'',
         registered = False, world = w, calls = [],
         logged = [LogInitialized (map py_strip (py_split CHR '','' (config_get (opt_watched_files cfg) ''printer.cfg''))),
                   LogFatalInit config_error]\<rparr>)"
    using assms
    by (simp add: GitBackup_init_def Let_def init_steps_def validate_config_def add_log_def
        config_get_def)
  have dis: "\<not> is_enabled ?a" by (simp add: run)
  show ?thesis
    using dis deliver_disabled [OF dis] by (simp add: run on_file_saved_def)
qed

theorem missing_settings_witness:
  "opt_enabled (example_config\<lparr>opt_github_token := None\<rparr>) = Some True
   \<and> falsy (opt_github_token (example_config\<lparr>opt_github_token := None\<rparr>))
   \<and> \<not> is_enabled (snd (GitBackup_init (machine_host plain_runtime)
         (example_config\<lparr>opt_github_token := None\<rparr>) example_machine))
   \<and> calls (snd (GitBackup_init (machine_host plain_runtime)
         (example_config\<lparr>opt_github_token := None\<rparr>) example_machine)) = []
   \<and> world (snd (GitBackup_init (machine_host plain_runtime)
         (example_config\<lparr>opt_github_token := None\<rparr>) example_machine)) = example_machine"
proof -
  have e: "opt_enabled (example_config\<lparr>opt_github_token := None\<rparr>) = Some True"
    by (simp add: example_config_def)
  have f: "falsy (opt_remote_url (example_config\<lparr>opt_github_token := None\<rparr>))
           \<or> falsy (opt_github_token (example_config\<lparr>opt_github_token := None\<rparr>))"
    by (simp add: falsy_def)
  show ?thesis
    using missing_settings_disable_the_agent [OF e f, of "machine_host plain_runtime" example_machine] e
    by (simp add: falsy_def)
qed

text \<open>
  C9: with \<^verbatim>\<open>enabled\<close> false or absent, \<^verbatim>\<open>__init__\<close> returns without having run a
  subprocess, touched the machine or registered the handler, and whatever save events
  follow, the handler returns at once: the instance, its record of subprocess calls
  (empty) and the machine stay as they are.
\<close>

theorem disabled_agent_never_runs_a_subprocess:
  assumes "opt_enabled cfg = None \<or> opt_enabled cfg = Some False"
  shows "fst (GitBackup_init h cfg w) = Inr ()
    \<and> \<not> is_enabled (snd (GitBackup_init h cfg w))
    \<and> \<not> registered (snd (GitBackup_init h cfg w))
    \<and> calls (snd (GitBackup_init h cfg w)) = []
    \<and> world (snd (GitBackup_init h cfg w)) = w
    \<and> logged (snd (GitBackup_init h cfg w)) = [LogDisabled]
    \<and> (\<forall>p. on_file_saved h p (snd (GitBackup_init h cfg w)) = (Inr (), snd (GitBackup_init h cfg w)))
    \<and> (\<forall>ps. deliver h (snd (GitBackup_init h cfg w)) ps = snd (GitBackup_init h cfg w)
            \<and> calls (deliver h (snd (GitBackup_init h cfg w)) ps) = []
            \<and> world (deliver h (snd (GitBackup_init h cfg w)) ps) = w)"
proof -
  let ?a = "snd (GitBackup_init h cfg w)"
  have off: "config_get (opt_enabled cfg) False = False"
    using assms by (auto simp: config_get_def)
  have facts: "fst (GitBackup_init h cfg w) = Inr ()" "\<not> is_enabled ?a" "\<not> registered ?a"
    "calls ?a = []" "world ?a = w" "logged ?a = [LogDisabled]"
    using off by (simp_all add: GitBackup_init_def Let_def add_log_def)
  show ?thesis
    using facts deliver_disabled [OF facts(2), of h] by (simp add: on_file_saved_def)
qed

theorem disabled_agent_witness:
  "opt_enabled (example_config\<lparr>opt_enabled := Some False\<rparr>) = Some False
   \<and> calls (deliver (machine_host plain_runtime)
        (snd (GitBackup_init (machine_host plain_runtime)
           (example_config\<lparr>opt_enabled := Some False\<rparr>) example_machine))
        [''printer.cfg'', ''printer.cfg'']) = []
   \<and> world (deliver (machine_host plain_runtime)
        (snd (GitBackup_init (machine_host plain_runtime)
           (example_config\<lparr>opt_enabled := Some False\<rparr>) example_machine))
        [''printer.cfg'', ''printer.cfg'']) = example_machine"
proof -
  have e: "opt_enabled (example_config\<lparr>opt_enabled := Some False\<rparr>) = None
           \<or> opt_enabled (example_config\<lparr>opt_enabled := Some False\<rparr>) = Some False"
    by simp
  show ?thesis
    using disabled_agent_never_runs_a_subprocess [OF e, of "machine_host plain_runtime" example_machine]
    by simp
qed

section \<open>The shell lexer reads back what \<^verbatim>\<open>shlex.quote\<close> wrote\<close>



lemma read_word_plain:
  "shell_plain s \<Longrightarrow>
     read_tokens InWord tok q acc (s @ rest) = read_tokens InWord (tok @ s) q acc rest"
  by (induction s arbitrary: tok) (simp_all add: shell_plain_def)

lemma read_space_plain:
  "shell_plain s \<Longrightarrow> s \<noteq> [] \<Longrightarrow>
     read_tokens InSpace tok q acc (s @ rest) = read_tokens InWord s q acc rest"
proof (cases s)
  case Nil
  then show "s \<noteq> [] \<Longrightarrow> ?thesis" by simp
next
  case (Cons c cs)
  assume p: "shell_plain s"
  then have pc: "shell_plain cs" using Cons by (simp add: shell_plain_def)
  show ?thesis
    using p Cons read_word_plain [OF pc, of "[c]" q acc rest]
    by (simp add: shell_plain_def)
qed









lemma split_git_init: "shlex_split ''git init'' = Inr [''git'', ''init'']"
  by (simp add: shlex_split_def shlex_whitespace_def)


lemma split_git_config_name:
  "shlex_split (''git config user.name '' @ [dq] @ ''Klipper Backup Plugin'' @ [dq]) =
     Inr [''git'', ''config'', ''user.name'', ''Klipper Backup Plugin'']"
  by (simp add: shlex_split_def shlex_whitespace_def)

lemma split_git_config_email:
  "shlex_split (''git config user.email '' @ [dq] @ ''backup@klipper.local'' @ [dq]) =
     Inr [''git'', ''config'', ''user.email'', ''backup@klipper.local'']"
  by (simp add: shlex_split_def shlex_whitespace_def)

lemma split_initial_commit:
  "shlex_split initial_commit_command = Inr [''git'', ''commit'', ''-m'', initial_commit_message]"
  by (simp add: shlex_split_def shlex_whitespace_def initial_commit_command_def
      initial_commit_message_def)


lemma split_git_checkout:
  "shell_plain b \<Longrightarrow> b \<noteq> [] \<Longrightarrow>
     shlex_split (''git checkout -b '' @ b) = Inr [''git'', ''checkout'', ''-b'', b]"
  using read_space_plain [of b "[]" False "[''git'', ''checkout'', ''-b'']" "[]"]
  by (simp add: shlex_split_def shlex_whitespace_def)

section \<open>Running one git command\<close>



lemma run_git_unsplit:
  "shlex_split c = Inl e \<Longrightarrow> run_git_command h c s a = (Inl e, a)"
  by (simp add: run_git_command_def)

section \<open>The example run\<close>

lemmas python_defs =
  config_get_def py_strip_def py_isspace_def falsy_def py_str_def basename_def path_join_def
  shlex_quote_def shlex_safe_chars_def shlex_split_def shlex_whitespace_def
  urlparse_def urlsplit_def urlsplit_tail_def unsafe_url_bytes_def c0_control_or_space_def
  ascii_lowercase_def ascii_uppercase_def scheme_chars_def ascii_lower_def splitnetloc_def
  split_once_def splitparams_def uses_params_def uses_netloc_def urlunparse_def urlunsplit_def
  py_format_def in_name_def render_field_def

lemmas component_defs =
  GitBackup_init_def Let_def add_log_def init_steps_def validate_config_def
  check_git_installed_def run_git_command_def subprocess_run_def initialize_repo_def
  initial_commit_command_def setup_remote_def url_with_token_def
  backup_steps_def on_file_saved_def deliver_def

lemmas machine_defs =
  machine_host_def git_run_def git_in_repo_def git_add_def git_commit_def git_push_def
  status_lines_def same_tree_def head_tree_def fresh_repo_def not_a_repository_def
  usage_error_def machine_isdir_def machine_exists_def


section \<open>Bootstrap and the unchanged save on the reference machine\<close>

text \<open>
  C3: what the code does where the claim expects success. The directory holds
  \<^verbatim>\<open>moonraker.conf\<close> but not the watched \<^verbatim>\<open>printer.cfg\<close>. \<^verbatim>\<open>_initialize_repo\<close> creates the
  repository, stages nothing, and runs \<^verbatim>\<open>git commit\<close> all the same; with nothing staged
  git returns 1, \<^verbatim>\<open>check=True\<close> raises, and \<^verbatim>\<open>__init__\<close> ends with the agent disabled,
  no handler registered and no remote configured.
\<close>

theorem initial_commit_without_files_fails_bootstrap:
  "GitBackup_init (machine_host plain_runtime) example_config
      (example_machine\<lparr>files := [(''moonraker.conf'', ''[server]'')]\<rparr>) =
     (Inr (),
      \<lparr>config_path = ''/home/pi/printer_data/config'', is_enabled = False,
       remote_url = Some ''https://github.com/user/repo.git'',
       github_token = Some ''abc123'', watched_files = [''printer.cfg''],
       commit_message = ''Auto-backup: {filename} modificado'',
       branch_name = ''main'', registered = False,
       world =
         example_machine\<lparr>files := [(''moonraker.conf'', ''[server]'')],
           repository :=
             Some \<lparr>head_ref = ''main'', user_name = Some ''Klipper Backup Plugin'',
                    user_email = Some ''backup@klipper.local'',
                    staged = [], commits = [], remotes = []\<rparr>\<rparr>,
       calls =
         [[''git'', ''--version''], [''git'', ''init''],
          [''git'', ''checkout'', ''-b'', ''main''],
          [''git'', ''config'', ''user.name'', ''Klipper Backup Plugin''],
          [''git'', ''config'', ''user.email'', ''backup@klipper.local''],
          [''git'', ''commit'', ''-m'', initial_commit_message]],
       logged =
         [LogInitialized [''printer.cfg''], LogRepoInitializing,
          LogCommandError initial_commit_command [],
          LogFatalInit (CalledProcessError [''git'', ''commit'', ''-m'', initial_commit_message] 1
                          (''nothing to commit'' @ [CHR 0x0A]) [])]\<rparr>)"
  by (simp add: python_defs component_defs machine_defs example_config_def example_machine_def
      initial_commit_message_def)

text \<open>
  C4: what the code does where the claim expects the status to be empty. After the
  example bootstrap, \<^verbatim>\<open>printer.cfg\<close> is committed and unchanged, and \<^verbatim>\<open>moonraker.conf\<close>
  is not tracked. \<^verbatim>\<open>git status --porcelain\<close> is not restricted to tracked files: it
  prints the untracked file, so the handler does not stop at the status check; it
  runs \<^verbatim>\<open>git commit\<close>, which fails with nothing staged, and logs a failed backup. No
  commit is made and nothing is pushed.
\<close>

theorem unchanged_save_with_untracked_file_attempts_commit:
  "fst (proc_run (machine_host plain_runtime) (world example_agent) (config_path example_agent)
          [''git'', ''status'', ''--porcelain''])
     = Completed 0 (''?? moonraker.conf'' @ [CHR 0x0A]) []
   \<and> on_file_saved (machine_host plain_runtime) ''printer.cfg'' example_agent =
     (Inr (),
      example_agent\<lparr>
        calls := calls example_agent @
          [[''git'', ''add'', ''printer.cfg''], [''git'', ''status'', ''--porcelain''],
           [''git'', ''commit'', ''-m'', ''Auto-backup: printer.cfg modificado'']],
        logged := logged example_agent @
          [LogFileSaved ''printer.cfg'',
           LogCommandError (''git commit -m '' @ [sq] @ ''Auto-backup: printer.cfg modificado'' @ [sq]) [],
           LogBackupFailed ''printer.cfg''
             (CalledProcessError [''git'', ''commit'', ''-m'', ''Auto-backup: printer.cfg modificado'']
                1 (''nothing to commit'' @ [CHR 0x0A]) [])]\<rparr>)"
  by (simp add: python_defs component_defs machine_defs example_agent_def
      initial_commit_message_def)

section \<open>The save handler contains every failure\<close>





section \<open>Rendering the commit message\<close>
















section \<open>Reading a replacement field\<close>







section \<open>A field that names something else, and braces that do not balance\<close>












section \<open>Every template is a sequence of pieces, alone or followed by a defect\<close>

lemma pieces_source_Cons: "pieces_source (p # ps) = piece_source p @ pieces_source ps"
  by (simp add: pieces_source_def)

lemma spec_scan:
  "open_spec d s \<or> (\<exists>sp r. s = sp @ CHR ''}'' # r \<and> spec_part d sp)"
proof (induction s arbitrary: d)
  case Nil
  then show ?case by simp
next
  case (Cons c cs)
  show ?case
  proof (cases "c = CHR ''{''")
    case True
    from Cons.IH [of "Suc d"] show ?thesis
    proof
      assume "open_spec (Suc d) cs"
      then show ?thesis using True by simp
    next
      assume "\<exists>sp r. cs = sp @ CHR ''}'' # r \<and> spec_part (Suc d) sp"
      then obtain sp r where "cs = sp @ CHR ''}'' # r" and "spec_part (Suc d) sp" by blast
      then have "c # cs = (c # sp) @ CHR ''}'' # r \<and> spec_part d (c # sp)" using True by simp
      then show ?thesis by blast
    qed
  next
    case no: False
    show ?thesis
    proof (cases "c = CHR ''}''")
      case True
      show ?thesis
      proof (cases "d = 0")
        case True
        have "c # cs = [] @ CHR ''}'' # cs \<and> spec_part d []"
          using True \<open>c = CHR ''}''\<close> by simp
        then show ?thesis by blast
      next
        case False
        from Cons.IH [of "d - 1"] show ?thesis
        proof
          assume "open_spec (d - 1) cs"
          then show ?thesis using True False by simp
        next
          assume "\<exists>sp r. cs = sp @ CHR ''}'' # r \<and> spec_part (d - 1) sp"
          then obtain sp r where "cs = sp @ CHR ''}'' # r" and "spec_part (d - 1) sp" by blast
          then have "c # cs = (c # sp) @ CHR ''}'' # r \<and> spec_part d (c # sp)"
            using True False by simp
          then show ?thesis by blast
        qed
      qed
    next
      case False
      from Cons.IH [of d] show ?thesis
      proof
        assume "open_spec d cs"
        then show ?thesis using False no by simp
      next
        assume "\<exists>sp r. cs = sp @ CHR ''}'' # r \<and> spec_part d sp"
        then obtain sp r where "cs = sp @ CHR ''}'' # r" and "spec_part d sp" by blast
        then have "c # cs = (c # sp) @ CHR ''}'' # r \<and> spec_part d (c # sp)"
          using False no by simp
        then show ?thesis by blast
      qed
    qed
  qed
qed

lemma open_field_after_name:
  "name_part b nm \<Longrightarrow> open_field b (nm @ t # r) = open_field False (t # r)"
proof (induction nm arbitrary: b)
  case Nil
  then show ?case by simp
next
  case (Cons c cs)
  show ?case
  proof (cases b)
    case True
    then have "name_part (c \<noteq> CHR '']'') cs" using Cons.prems by simp
    from Cons.IH [OF this] show ?thesis using True by simp
  next
    case False
    then have c: "c \<notin> set ''{}!:''" and n: "name_part (c = CHR ''['') cs"
      using Cons.prems by simp_all
    from Cons.IH [OF n] show ?thesis using False c by simp
  qed
qed

lemma name_scan:
  "open_field b u \<or> (\<exists>nm t r. u = nm @ t # r \<and> name_part b nm \<and> t \<in> set ''{}!:'')"
proof (induction u arbitrary: b)
  case Nil
  then show ?case by simp
next
  case (Cons c cs)
  show ?case
  proof (cases b)
    case True
    from Cons.IH [of "c \<noteq> CHR '']''"] show ?thesis
    proof
      assume "open_field (c \<noteq> CHR '']'') cs"
      then show ?thesis using True by simp
    next
      assume "\<exists>nm t r. cs = nm @ t # r \<and> name_part (c \<noteq> CHR '']'') nm \<and> t \<in> set ''{}!:''"
      then obtain nm t r where "cs = nm @ t # r" and "name_part (c \<noteq> CHR '']'') nm"
        and "t \<in> set ''{}!:''" by blast
      then have "c # cs = (c # nm) @ t # r \<and> name_part b (c # nm) \<and> t \<in> set ''{}!:''"
        using True by simp
      then show ?thesis by blast
    qed
  next
    case False
    show ?thesis
    proof (cases "c \<in> set ''{}!:''")
      case True
      have "c # cs = [] @ c # cs \<and> name_part b [] \<and> c \<in> set ''{}!:''"
        using True False by simp
      then show ?thesis by blast
    next
      case nt: False
      from Cons.IH [of "c = CHR ''[''"] show ?thesis
      proof
        assume "open_field (c = CHR ''['') cs"
        then show ?thesis using False nt by simp
      next
        assume "\<exists>nm t r. cs = nm @ t # r \<and> name_part (c = CHR ''['') nm \<and> t \<in> set ''{}!:''"
        then obtain nm t r where "cs = nm @ t # r" and "name_part (c = CHR ''['') nm"
          and "t \<in> set ''{}!:''" by blast
        then have "c # cs = (c # nm) @ t # r \<and> name_part b (c # nm) \<and> t \<in> set ''{}!:''"
          using False nt by simp
        then show ?thesis by blast
      qed
    qed
  qed
qed

lemma field_or_defect:
  assumes "take 1 u \<noteq> ''{''"
  shows "(\<exists>d. is_defect d \<and> ''{'' @ u = defect_source d)
       \<or> (\<exists>nm cv sp r. piece_ok (AnyField nm cv sp) \<and> ''{'' @ u = piece_source (AnyField nm cv sp) @ r)"
proof -
  have unclosed: "?thesis" if "open_field False u"
  proof -
    have "is_defect (Unclosed u) \<and> ''{'' @ u = defect_source (Unclosed u)"
      using that assms by simp
    then show ?thesis by blast
  qed
  from name_scan [of False u] show ?thesis
  proof
    assume "open_field False u"
    then show ?thesis by (rule unclosed)
  next
    assume "\<exists>nm t r. u = nm @ t # r \<and> name_part False nm \<and> t \<in> set ''{}!:''"
    then obtain nm t r where u: "u = nm @ t # r" and n: "name_part False nm"
      and t: "t \<in> set ''{}!:''" by blast
    note after = open_field_after_name [OF n]
    have t4: "t = CHR ''{'' \<or> t = CHR ''}'' \<or> t = CHR ''!'' \<or> t = CHR '':''" using t by simp
    then show ?thesis
    proof (elim disjE)
      assume tb: "t = CHR ''{''"
      then have "nm \<noteq> []" using assms u by auto
      then have "is_defect (BraceInName nm r) \<and> ''{'' @ u = defect_source (BraceInName nm r)"
        using n u tb by simp
      then show ?thesis by blast
    next
      assume tc: "t = CHR ''}''"
      have "piece_ok (AnyField nm None None)
          \<and> ''{'' @ u = piece_source (AnyField nm None None) @ r"
        using n u tc by (simp add: field_source_def)
      then show ?thesis by blast
    next
      assume tc: "t = CHR '':''"
      from spec_scan [of 0 r] show ?thesis
      proof
        assume "open_spec 0 r"
        then have "open_field False u" using u tc after [of t r] by simp
        then show ?thesis by (rule unclosed)
      next
        assume "\<exists>sp r'. r = sp @ CHR ''}'' # r' \<and> spec_part 0 sp"
        then obtain sp r' where "r = sp @ CHR ''}'' # r'" and "spec_part 0 sp" by blast
        then have "piece_ok (AnyField nm None (Some sp))
            \<and> ''{'' @ u = piece_source (AnyField nm None (Some sp)) @ r'"
          using n u tc by (simp add: field_source_def)
        then show ?thesis by blast
      qed
    next
      assume te: "t = CHR ''!''"
      show ?thesis
      proof (cases r)
        case Nil
        then have "open_field False u" using u te after [of t r] by simp
        then show ?thesis by (rule unclosed)
      next
        case (Cons c r1)
        show ?thesis
        proof (cases r1)
          case Nil
          then have "open_field False u" using u te Cons after [of t r] by simp
          then show ?thesis by (rule unclosed)
        next
          case r1: (Cons x r2)
          show ?thesis
          proof (cases "x = CHR ''}''")
            case True
            have "piece_ok (AnyField nm (Some c) None)
                \<and> ''{'' @ u = piece_source (AnyField nm (Some c) None) @ r2"
              using n u te Cons r1 True by (simp add: field_source_def)
            then show ?thesis by blast
          next
            case nclose: False
            show ?thesis
            proof (cases "x = CHR '':''")
              case True
              from spec_scan [of 0 r2] show ?thesis
              proof
                assume "open_spec 0 r2"
                then have "open_field False u"
                  using u te Cons r1 True after [of t r] by simp
                then show ?thesis by (rule unclosed)
              next
                assume "\<exists>sp r'. r2 = sp @ CHR ''}'' # r' \<and> spec_part 0 sp"
                then obtain sp r' where "r2 = sp @ CHR ''}'' # r'" and "spec_part 0 sp" by blast
                then have "piece_ok (AnyField nm (Some c) (Some sp))
                    \<and> ''{'' @ u = piece_source (AnyField nm (Some c) (Some sp)) @ r'"
                  using n u te Cons r1 True by (simp add: field_source_def)
                then show ?thesis by blast
              qed
            next
              case False
              have "is_defect (BadConversion nm c (x # r2))
                  \<and> ''{'' @ u = defect_source (BadConversion nm c (x # r2))"
                using n u te Cons r1 False nclose by simp
              then show ?thesis by blast
            qed
          qed
        qed
      qed
    qed
  qed
qed

lemma template_pieces_or_defect:
  "\<exists>ps. list_all piece_ok ps
     \<and> (t = pieces_source ps \<or> (\<exists>d. is_defect d \<and> t = pieces_source ps @ defect_source d))"
proof (induction t rule: length_induct)
  case (1 t)
  have step: ?case
    if "piece_ok p" and "t = piece_source p @ r" and "length r < length t" for p r
  proof -
    from 1 that(3) obtain ps where ps: "list_all piece_ok ps"
      and r: "r = pieces_source ps \<or> (\<exists>d. is_defect d \<and> r = pieces_source ps @ defect_source d)"
      by blast
    have "list_all piece_ok (p # ps)" using that(1) ps by simp
    moreover have "t = pieces_source (p # ps)
        \<or> (\<exists>d. is_defect d \<and> t = pieces_source (p # ps) @ defect_source d)"
      using r that(2) by (auto simp: pieces_source_Cons)
    ultimately show ?thesis by blast
  qed
  have stop: ?case if "is_defect d" and "t = defect_source d" for d
  proof -
    have "list_all piece_ok [] \<and> t = pieces_source [] @ defect_source d"
      using that by (simp add: pieces_source_def)
    then show ?thesis using that(1) by blast
  qed
  show ?case
  proof (cases t)
    case Nil
    then have "list_all piece_ok [] \<and> t = pieces_source []" by (simp add: pieces_source_def)
    then show ?thesis by blast
  next
    case (Cons c cs)
    show ?thesis
    proof (cases "c = CHR ''{''")
      case True
      show ?thesis
      proof (cases "take 1 cs = ''{''")
        case True
        then obtain r where "cs = CHR ''{'' # r" by (cases cs) auto
        then show ?thesis
          using step [of "Plain OpenBrace" r] Cons \<open>c = CHR ''{''\<close> by simp
      next
        case False
        from field_or_defect [OF False] show ?thesis
        proof
          assume "\<exists>d. is_defect d \<and> ''{'' @ cs = defect_source d"
          then show ?thesis using stop Cons True by auto
        next
          assume "\<exists>nm cv sp r. piece_ok (AnyField nm cv sp)
                    \<and> ''{'' @ cs = piece_source (AnyField nm cv sp) @ r"
          then obtain nm cv sp r where ok: "piece_ok (AnyField nm cv sp)"
            and src: "''{'' @ cs = piece_source (AnyField nm cv sp) @ r" by blast
          have "length (piece_source (AnyField nm cv sp)) > 0" by simp
          have "length (''{'' @ cs) = length (piece_source (AnyField nm cv sp)) + length r"
            using src by (metis length_append)
          then have lt: "length r < length t" using Cons by simp
          have "t = piece_source (AnyField nm cv sp) @ r" using src Cons True by simp
          then show ?thesis using step [OF ok _ lt] by blast
        qed
      qed
    next
      case no: False
      show ?thesis
      proof (cases "c = CHR ''}''")
        case True
        show ?thesis
        proof (cases "take 1 cs = ''}''")
          case True
          then obtain r where "cs = CHR ''}'' # r" by (cases cs) auto
          then show ?thesis
            using step [of "Plain CloseBrace" r] Cons \<open>c = CHR ''}''\<close> by simp
        next
          case False
          then show ?thesis using stop [of "LoneClose cs"] Cons True by simp
        qed
      next
        case False
        then show ?thesis
          using step [of "Plain (Text [c])" cs] Cons no by (simp add: brace_free_def)
      qed
    qed
  qed
qed

text \<open>Some templates, taken apart: each is the source of pieces followed by a defect.\<close>

lemma defect_examples:
  "is_defect (OtherField ''date'' ''!r}'')
   \<and> defect_source (OtherField ''date'' ''!r}'') = ''{date!r}''
   \<and> is_defect (OtherField ''date'' ''[0]}'')
   \<and> defect_source (OtherField ''date'' ''[0]}'') = ''{date[0]}''
   \<and> is_defect (OtherField ''da'' ''{te}'')
   \<and> defect_source (OtherField ''da'' ''{te}'') = ''{da{te}''
   \<and> is_defect (OtherField [] ''}'')
   \<and> defect_source (OtherField [] ''}'') = ''{}''
   \<and> piece_ok (AnyField ''filename'' (Some CHR ''r'') None)
   \<and> is_defect (OtherField ''date'' ''}'')
   \<and> pieces_source [AnyField ''filename'' (Some CHR ''r'') None, Plain (Text '' '')]
        @ defect_source (OtherField ''date'' ''}'') = ''{filename!r} {date}''
   \<and> piece_ok (AnyField ''filename'' None (Some ''>20''))
   \<and> pieces_source [AnyField ''filename'' None (Some ''>20'')]
        @ defect_source (LoneClose []) = ''{filename:>20}}''
   \<and> is_defect (LoneClose [])
   \<and> is_defect (Unclosed ''filename'')
   \<and> defect_source (Unclosed ''filename'') = ''{filename''
   \<and> is_defect (Unclosed ''filename:{x}'')
   \<and> is_defect (BraceInName ''filename'' ''x}}'')
   \<and> defect_source (BraceInName ''filename'' ''x}}'') = ''{filename{x}}''"
  by (simp add: pieces_source_def field_source_def brace_free_def)

section \<open>The save handler, step by step\<close>















text \<open>
  C5: what the code does where the claim expects a push. \<^verbatim>\<open>_on_file_saved\<close> quotes the
  saved path and the commit message with \<^verbatim>\<open>shlex.quote\<close>, but puts the branch name into
  the push command as it stands. With the branch \<^verbatim>\<open>it's\<close> on a directory that already
  holds a repository, \<^verbatim>\<open>__init__\<close> succeeds; the save of the edited
  \<^verbatim>\<open>/home/pi/printer_data/config/printer.cfg\<close> is staged and committed, with the base
  name \<^verbatim>\<open>printer.cfg\<close> in the message, and then \<^verbatim>\<open>shlex.split\<close> raises on the push command:
  no push is attempted, and the event is logged as a failed backup although the commit
  was made.
\<close>

theorem unquoted_branch_commits_without_push:
  "GitBackup_init (machine_host plain_runtime) apostrophe_config apostrophe_machine =
     (Inr (), apostrophe_agent)
   \<and> shlex_split (''git push origin '' @ branch_name apostrophe_agent) =
       Inl (ValueError ''No closing quotation'')
   \<and> on_file_saved (machine_host plain_runtime) ''/home/pi/printer_data/config/printer.cfg''
         apostrophe_agent =
       (Inr (),
        apostrophe_agent\<lparr>
          world := apostrophe_machine\<lparr>repository :=
            Some \<lparr>head_ref = ''it's'',
                   user_name = Some ''pi'', user_email = Some ''pi@klipper.local'',
                   staged = [(''printer.cfg'', ''[printer] v2'')],
                   commits = [(''first'', [(''printer.cfg'', ''[printer]'')]),
                              (''Auto-backup: printer.cfg modificado'',
                               [(''printer.cfg'', ''[printer] v2'')])],
                   remotes = [(''origin'', ''https://abc123@github.com/user/repo.git'')]\<rparr>\<rparr>,
          calls := calls apostrophe_agent @
            [[''git'', ''add'', ''/home/pi/printer_data/config/printer.cfg''],
             [''git'', ''status'', ''--porcelain''],
             [''git'', ''commit'', ''-m'', ''Auto-backup: printer.cfg modificado'']],
          logged := logged apostrophe_agent @
            [LogFileSaved ''printer.cfg'',
             LogBackupFailed ''printer.cfg'' (ValueError ''No closing quotation'')]\<rparr>)"
  by (simp add: python_defs component_defs machine_defs example_config_def
      apostrophe_config_def apostrophe_machine_def apostrophe_agent_def)

section \<open>The remote URL\<close>














section \<open>Running the bootstrap again\<close>











text \<open>The example agent on a machine whose repository has no remote yet.\<close>



text \<open>
  Where the first run did not succeed, the second is not a repetition. The directory
  holds \<^verbatim>\<open>moonraker.conf\<close> but not the watched \<^verbatim>\<open>printer.cfg\<close>: the first \<^verbatim>\<open>__init__\<close>
  creates the repository and fails at the initial commit, leaving the agent disabled
  and no remote; the second finds \<^verbatim>\<open>.git\<close>, skips the creation, fails to remove the
  missing remote without aborting, adds the remote and ends enabled and registered. The
  machine after two runs is not the machine after one.
\<close>

theorem second_run_completes_a_failed_bootstrap:
  "world (snd (GitBackup_init (machine_host plain_runtime) example_config
                 (example_machine\<lparr>files := [(''moonraker.conf'', ''[server]'')]\<rparr>)))
     = stalled_machine
   \<and> is_enabled (snd (GitBackup_init (machine_host plain_runtime) example_config
                 (example_machine\<lparr>files := [(''moonraker.conf'', ''[server]'')]\<rparr>))) = False
   \<and> path_isdir (machine_host plain_runtime) stalled_machine
        (path_join (main_config_dir example_config) ''.git'')
   \<and> GitBackup_init (machine_host plain_runtime) example_config stalled_machine =
       (Inr (),
        \<lparr>config_path = ''/home/pi/printer_data/config'', is_enabled = True,
         remote_url = Some ''https://github.com/user/repo.git'',
         github_token = Some ''abc123'', watched_files = [''printer.cfg''],
         commit_message = ''Auto-backup: {filename} modificado'',
         branch_name = ''main'', registered = True,
         world =
           stalled_machine\<lparr>repository :=
             Some \<lparr>head_ref = ''main'', user_name = Some ''Klipper Backup Plugin'',
                    user_email = Some ''backup@klipper.local'',
                    staged = [], commits = [],
                    remotes = [(''origin'', ''https://abc123@github.com/user/repo.git'')]\<rparr>\<rparr>,
         calls =
           [[''git'', ''--version''], [''git'', ''remote'', ''remove'', ''origin''],
            [''git'', ''remote'', ''add'', ''origin'', ''https://abc123@github.com/user/repo.git'']],
         logged =
           [LogInitialized [''printer.cfg''], LogRepoExists,
            LogRemoteConfiguring, LogRemoteConfigured]\<rparr>)
   \<and> world (snd (GitBackup_init (machine_host plain_runtime) example_config stalled_machine))
       \<noteq> stalled_machine"
  by (simp add: python_defs component_defs machine_defs example_config_def example_machine_def
      initial_commit_message_def stalled_machine_def)

end
